theory Spec2Isabelle
  imports Main "HOL-Library.Multiset"
begin

section \<open>Data model\<close>

text \<open>
  The rows of the relational store, as the services read and write them through the
  Prisma client. A table is the list of its rows in insertion order: \<^verbatim>\<open>findFirst\<close> and
  \<^verbatim>\<open>findUnique\<close> are \<open>find\<close>, an update by primary key rewrites the rows with that
  key. Identifiers are the UUID strings of the source; a timestamp stands for the value
  of \<^verbatim>\<open>new Date()\<close> and is handed to each operation by its caller, as is the identifier
  the store generates for a created row.
\<close>

type_synonym uuid = string
type_synonym timestamp = nat

text \<open>
  Modelled from the spec: the enums are declared in the Prisma schema, which is not in
  the sources. Their members are the ones the sources name (all of \<open>DealStatus\<close> and
  \<open>PropertyStatus\<close>; INITIATED, COMPLETED, FAILED and REFUNDED of the payment status; PAID
  of the deal's payment status; the six payment methods of \<^verbatim>\<open>mapPaymentMethod\<close>) and
  the ones the data model of the spec adds (PENDING and CANCELLED; UNPAID). The payment
  statuses carry a prefix, since COMPLETED and CANCELLED are deal statuses too.
\<close>

datatype DealStatus = PENDING_BOTH | PENDING_OWNER | PENDING_TENANT | COMPLETED | CANCELLED

datatype PropertyStatus = DRAFT | ACTIVE | RENTED | SUSPENDED

datatype DealPaymentStatus = UNPAID | PAID

datatype PaymentStatus =
  PAY_PENDING | PAY_INITIATED | PAY_COMPLETED | PAY_FAILED | PAY_REFUNDED | PAY_CANCELLED

datatype PaymentMethod = CREDIT_CARD | DEBIT_CARD | NET_BANKING | UPI | WALLET | EMI

record property =
  prop_id :: uuid
  title :: string
  rentAmount :: int
  prop_status :: PropertyStatus

record conversation =
  conv_id :: uuid
  conv_propertyId :: uuid
  conv_ownerId :: uuid
  conv_tenantId :: uuid

record deal =
  deal_id :: uuid
  conversationId :: uuid
  propertyId :: uuid
  ownerId :: uuid
  tenantId :: uuid
  agreedRent :: int
  ownerConfirmed :: bool
  ownerConfirmedAt :: "timestamp option"
  tenantConfirmed :: bool
  tenantConfirmedAt :: "timestamp option"
  status :: DealStatus
  successFeeAmount :: "int option"
  completedAt :: "timestamp option"
  paymentStatus :: DealPaymentStatus
  paymentId :: "string option"

record payment =
  pay_id :: uuid
  dealId :: uuid
  payerId :: uuid
  amount :: int
  description :: string
  razorpayOrderId :: string
  razorpayPaymentId :: "string option"
  razorpaySignature :: "string option"
  pay_status :: PaymentStatus
  pay_method :: "PaymentMethod option"
  pay_notes :: string
  pay_completedAt :: "timestamp option"
  failedAt :: "timestamp option"
  refundedAt :: "timestamp option"

text \<open>
  The entities a gateway webhook carries, and the gateway's answers to a refund call and
  to the creation of an order.
\<close>

record payment_entity =
  pe_id :: string
  pe_order_id :: string
  pe_amount :: int
  pe_method :: string

record refund_entity =
  re_id :: string
  re_payment_id :: string

record gateway_order =
  order_id :: string
  order_currency :: string
  order_receipt :: string

text \<open>
  What a log row keeps in \<^verbatim>\<open>razorpayData\<close>: the source stores \<^verbatim>\<open>JSON.stringify\<close> of one of
  these values; the model keeps the value.
\<close>

datatype gateway_data =
  OrderData gateway_order
  | VerifiedIds string string
  | PaymentData payment_entity
  | RefundData refund_entity

record paymentLog =
  log_paymentId :: uuid
  event :: string
  log_status :: string
  razorpayData :: "gateway_data option"
  errorMessage :: "string option"
  createdAt :: timestamp

text \<open>
  The notifier is fire-and-forget: a call to the email service is recorded in an outbox,
  with the recipient's user id, the property title, the rent and the recipient's role.
  The owner and the tenant are required relations of a conversation and of a deal, so
  the source's tests that they are present hold; the user table itself is left out.
\<close>

datatype email =
  DealCreatedEmail uuid string int string
  | DealCompletedEmail uuid string int string

record store =
  conversations :: "conversation list"
  properties :: "property list"
  deals :: "deal list"
  payments :: "payment list"
  paymentLogs :: "paymentLog list"
  outbox :: "email list"

text \<open>
  A thrown JavaScript \<^verbatim>\<open>Error\<close> with its message, or an error of the Prisma client with
  its code: \<^verbatim>\<open>P2002\<close> a unique constraint, \<^verbatim>\<open>P2025\<close> a missing row,
  \<^verbatim>\<open>inconsistent\<close> a required relation that has no row, and \<^verbatim>\<open>validation\<close> a
  value that is not a member of the column's enum. An operation returns the store
  it leaves behind together with its outcome, since nothing is rolled back when a later
  step throws.
\<close>

datatype error = Error string | PrismaError string

section \<open>Success fee\<close>

text \<open>\<^verbatim>\<open>config.successFeeSlabs\<close>; \<^verbatim>\<open>maxRent = None\<close> is \<^verbatim>\<open>Infinity\<close>.\<close>

record slab =
  maxRent :: "int option"
  fee :: int

definition successFeeSlabs :: "slab list" where
  "successFeeSlabs =
     [\<lparr>maxRent = Some 10000, fee = 299\<rparr>,
      \<lparr>maxRent = Some 25000, fee = 499\<rparr>,
      \<lparr>maxRent = None, fee = 999\<rparr>]"

fun below :: "int \<Rightarrow> int option \<Rightarrow> bool" where
  "below r None = True"
| "below r (Some m) = (r < m)"

fun first_slab :: "slab list \<Rightarrow> int \<Rightarrow> int option" where
  "first_slab [] r = None"
| "first_slab (s # ss) r = (if below r (maxRent s) then Some (fee s) else first_slab ss r)"

definition calculateSuccessFee :: "int \<Rightarrow> int" where
  "calculateSuccessFee rent =
     (case first_slab successFeeSlabs rent of
        Some f \<Rightarrow> f
      | None \<Rightarrow> fee (last successFeeSlabs))"

section \<open>Deal service\<close>

text \<open>\<^verbatim>\<open>a || b\<close> on an optional number: \<^verbatim>\<open>undefined\<close> and \<^verbatim>\<open>0\<close> are falsy.\<close>

fun js_or :: "int option \<Rightarrow> int \<Rightarrow> int" where
  "js_or None d = d"
| "js_or (Some v) d = (if v = 0 then d else v)"

text \<open>
  Modelled from the spec: the Prisma schema with the column defaults of a Deal is not in
  the sources. The data model gives a new Deal both confirmation flags false, no
  timestamps, no success fee, and payment status UNPAID.
\<close>

definition new_deal :: "uuid \<Rightarrow> conversation \<Rightarrow> int \<Rightarrow> DealStatus \<Rightarrow> deal" where
  "new_deal newId c rent s =
     \<lparr>deal_id = newId, conversationId = conv_id c, propertyId = conv_propertyId c,
      ownerId = conv_ownerId c, tenantId = conv_tenantId c, agreedRent = rent,
      ownerConfirmed = False, ownerConfirmedAt = None,
      tenantConfirmed = False, tenantConfirmedAt = None,
      status = s, successFeeAmount = None, completedAt = None,
      paymentStatus = UNPAID, paymentId = None\<rparr>"

text \<open>
  \<^verbatim>\<open>prisma.deal.create\<close>: the primary key and the conversation id are unique.
  \<^verbatim>\<open>prisma.deal.update({where: {id}})\<close>: fails when no row has the id, else writes the
  data into the row and returns it.
\<close>

definition deal_create :: "store \<Rightarrow> deal \<Rightarrow> (store \<times> deal) option" where
  "deal_create st d =
     (if list_ex (\<lambda>r. deal_id r = deal_id d \<or> conversationId r = conversationId d) (deals st)
      then None
      else Some (st\<lparr>deals := deals st @ [d]\<rparr>, d))"

definition deal_update :: "store \<Rightarrow> uuid \<Rightarrow> (deal \<Rightarrow> deal) \<Rightarrow> (store \<times> deal) option" where
  "deal_update st i f =
     (case find (\<lambda>d. deal_id d = i) (deals st) of
        None \<Rightarrow> None
      | Some d \<Rightarrow>
          Some (st\<lparr>deals := map (\<lambda>r. if deal_id r = i then f r else r) (deals st)\<rparr>, f d))"

definition property_update ::
  "store \<Rightarrow> uuid \<Rightarrow> (property \<Rightarrow> property) \<Rightarrow> store option" where
  "property_update st i f =
     (case find (\<lambda>p. prop_id p = i) (properties st) of
        None \<Rightarrow> None
      | Some p \<Rightarrow>
          Some (st\<lparr>properties := map (\<lambda>r. if prop_id r = i then f r else r) (properties st)\<rparr>))"

definition send_email :: "store \<Rightarrow> email \<Rightarrow> store" where
  "send_email st m = st\<lparr>outbox := outbox st @ [m]\<rparr>"

definition getDealWithDetails :: "store \<Rightarrow> uuid \<Rightarrow> deal option" where
  "getDealWithDetails st i = find (\<lambda>d. deal_id d = i) (deals st)"

definition completeDeal :: "store \<Rightarrow> uuid \<Rightarrow> timestamp \<Rightarrow> store \<times> (error + deal)" where
  "completeDeal st i now =
     (case find (\<lambda>d. deal_id d = i) (deals st) of
        None \<Rightarrow> (st, Inl (Error ''Deal not found''))
      | Some d \<Rightarrow>
         (case find (\<lambda>p. prop_id p = propertyId d) (properties st) of
            None \<Rightarrow> (st, Inl (PrismaError ''inconsistent''))
          | Some prop \<Rightarrow>
             (let successFee = calculateSuccessFee (agreedRent d) in
              case deal_update st i
                     (\<lambda>r. r\<lparr>status := COMPLETED, completedAt := Some now,
                             successFeeAmount := Some successFee\<rparr>) of
                None \<Rightarrow> (st, Inl (PrismaError ''P2025''))
              | Some (st1, _) \<Rightarrow>
                 (case property_update st1 (propertyId d) (\<lambda>p. p\<lparr>prop_status := RENTED\<rparr>) of
                    None \<Rightarrow> (st1, Inl (PrismaError ''P2025''))
                  | Some st2 \<Rightarrow>
                     (send_email
                        (send_email st2
                           (DealCompletedEmail (ownerId d) (title prop) (agreedRent d) ''owner''))
                        (DealCompletedEmail (tenantId d) (title prop) (agreedRent d) ''tenant''),
                      Inr d)))))"

text \<open>
  The end of both confirmations: when both flags of the written row are set, complete
  the deal; then read the deal back.
\<close>

definition confirm_finish ::
  "store \<Rightarrow> deal \<Rightarrow> timestamp \<Rightarrow> store \<times> (error + deal option)" where
  "confirm_finish st d now =
     (if ownerConfirmed d \<and> tenantConfirmed d then
        (case completeDeal st (deal_id d) now of
           (st1, Inl e) \<Rightarrow> (st1, Inl e)
         | (st1, Inr _) \<Rightarrow> (st1, Inr (getDealWithDetails st1 (deal_id d))))
      else (st, Inr (getDealWithDetails st (deal_id d))))"

definition ownerConfirmDeal ::
  "store \<Rightarrow> uuid \<Rightarrow> uuid \<Rightarrow> int option \<Rightarrow> timestamp \<Rightarrow> uuid \<Rightarrow> store \<times> (error + deal option)" where
  "ownerConfirmDeal st cid oid agreedRentArg now newId =
     (case find (\<lambda>c. conv_id c = cid \<and> conv_ownerId c = oid) (conversations st) of
        None \<Rightarrow> (st, Inl (Error ''Conversation not found or you are not the owner''))
      | Some c \<Rightarrow>
         (case find (\<lambda>p. prop_id p = conv_propertyId c) (properties st) of
            None \<Rightarrow> (st, Inl (PrismaError ''inconsistent''))
          | Some prop \<Rightarrow>
             (let rent = js_or agreedRentArg (rentAmount prop) in
              case find (\<lambda>d. conversationId d = cid) (deals st) of
                None \<Rightarrow>
                 (case deal_create st
                         ((new_deal newId c rent PENDING_TENANT)
                            \<lparr>ownerConfirmed := True, ownerConfirmedAt := Some now\<rparr>) of
                    None \<Rightarrow> (st, Inl (PrismaError ''P2002''))
                  | Some (st1, d) \<Rightarrow>
                      confirm_finish
                        (send_email st1
                           (DealCreatedEmail (conv_tenantId c) (title prop) rent ''tenant''))
                        d now)
              | Some d0 \<Rightarrow>
                 (case deal_update st (deal_id d0)
                         (\<lambda>r. r\<lparr>ownerConfirmed := True, ownerConfirmedAt := Some now,
                                 agreedRent := rent,
                                 status := (if tenantConfirmed d0 then COMPLETED
                                            else PENDING_TENANT)\<rparr>) of
                    None \<Rightarrow> (st, Inl (PrismaError ''P2025''))
                  | Some (st1, d) \<Rightarrow> confirm_finish st1 d now))))"

definition tenantConfirmDeal ::
  "store \<Rightarrow> uuid \<Rightarrow> uuid \<Rightarrow> timestamp \<Rightarrow> uuid \<Rightarrow> store \<times> (error + deal option)" where
  "tenantConfirmDeal st cid tid now newId =
     (case find (\<lambda>c. conv_id c = cid \<and> conv_tenantId c = tid) (conversations st) of
        None \<Rightarrow> (st, Inl (Error ''Conversation not found or you are not the tenant''))
      | Some c \<Rightarrow>
         (case find (\<lambda>p. prop_id p = conv_propertyId c) (properties st) of
            None \<Rightarrow> (st, Inl (PrismaError ''inconsistent''))
          | Some prop \<Rightarrow>
             (case find (\<lambda>d. conversationId d = cid) (deals st) of
                None \<Rightarrow>
                 (case deal_create st
                         ((new_deal newId c (rentAmount prop) PENDING_OWNER)
                            \<lparr>tenantConfirmed := True, tenantConfirmedAt := Some now\<rparr>) of
                    None \<Rightarrow> (st, Inl (PrismaError ''P2002''))
                  | Some (st1, d) \<Rightarrow>
                      confirm_finish
                        (send_email st1
                           (DealCreatedEmail (conv_ownerId c) (title prop) (rentAmount prop)
                              ''owner''))
                        d now)
              | Some d0 \<Rightarrow>
                 (case deal_update st (deal_id d0)
                         (\<lambda>r. r\<lparr>tenantConfirmed := True, tenantConfirmedAt := Some now,
                                 status := (if ownerConfirmed d0 then COMPLETED
                                            else PENDING_OWNER)\<rparr>) of
                    None \<Rightarrow> (st, Inl (PrismaError ''P2025''))
                  | Some (st1, d) \<Rightarrow> confirm_finish st1 d now))))"

text \<open>
  The parameter \<^verbatim>\<open>agreedRent\<close> is declared a number; at run time a caller can still leave
  it \<^verbatim>\<open>undefined\<close>, which \<^verbatim>\<open>||\<close> treats like \<^verbatim>\<open>0\<close>.
\<close>

definition getOrCreateDeal ::
  "store \<Rightarrow> uuid \<Rightarrow> uuid \<Rightarrow> int option \<Rightarrow> uuid \<Rightarrow> store \<times> (error + deal)" where
  "getOrCreateDeal st cid userId agreedRentArg newId =
     (case find (\<lambda>c. conv_id c = cid \<and> (conv_ownerId c = userId \<or> conv_tenantId c = userId))
             (conversations st) of
        None \<Rightarrow> (st, Inl (Error ''Conversation not found''))
      | Some c \<Rightarrow>
         (case find (\<lambda>p. prop_id p = conv_propertyId c) (properties st) of
            None \<Rightarrow> (st, Inl (PrismaError ''inconsistent''))
          | Some prop \<Rightarrow>
             (case find (\<lambda>d. conversationId d = cid) (deals st) of
                None \<Rightarrow>
                 (case deal_create st
                         (new_deal newId c (js_or agreedRentArg (rentAmount prop))
                            PENDING_BOTH) of
                    None \<Rightarrow> (st, Inl (PrismaError ''P2002''))
                  | Some (st1, d) \<Rightarrow> (st1, Inr d))
              | Some d0 \<Rightarrow> (st, Inr d0))))"

definition cancelDeal :: "store \<Rightarrow> uuid \<Rightarrow> uuid \<Rightarrow> store \<times> (error + string)" where
  "cancelDeal st i userId =
     (case find (\<lambda>d. deal_id d = i \<and> (ownerId d = userId \<or> tenantId d = userId)
                      \<and> status d \<noteq> COMPLETED) (deals st) of
        None \<Rightarrow> (st, Inl (Error ''Deal not found or cannot be cancelled''))
      | Some d \<Rightarrow>
         (case deal_update st i (\<lambda>r. r\<lparr>status := CANCELLED\<rparr>) of
            None \<Rightarrow> (st, Inl (PrismaError ''P2025''))
          | Some (st1, _) \<Rightarrow> (st1, Inr ''Deal cancelled'')))"

text \<open>A sequence of calls to the deal service, each left to finish before the next.\<close>

datatype deal_op =
  OwnerConfirm uuid uuid "int option" timestamp uuid
  | TenantConfirm uuid uuid timestamp uuid
  | Cancel uuid uuid
  | GetOrCreate uuid uuid "int option" uuid

fun deal_step :: "store \<Rightarrow> deal_op \<Rightarrow> store" where
  "deal_step st (OwnerConfirm cid oid r now newId) = fst (ownerConfirmDeal st cid oid r now newId)"
| "deal_step st (TenantConfirm cid tid now newId) = fst (tenantConfirmDeal st cid tid now newId)"
| "deal_step st (Cancel i u) = fst (cancelDeal st i u)"
| "deal_step st (GetOrCreate cid u r newId) = fst (getOrCreateDeal st cid u r newId)"

fun deal_run :: "store \<Rightarrow> deal_op list \<Rightarrow> store" where
  "deal_run st [] = st"
| "deal_run st (x # xs) = deal_run (deal_step st x) xs"

section \<open>Payment service\<close>

text \<open>
  What the payment service takes from outside the repository: the configured secrets,
  the crypto library's HMAC-SHA256 with hexadecimal digest (key first, then message),
  \<^verbatim>\<open>JSON.stringify\<close> of a webhook body, and the two calls of the Razorpay client. The
  service's calls to the logger have no effect on the store and are left out.
\<close>

record payment_webhook_data =
  wh_event :: string
  wh_payment :: "payment_entity option"
  wh_refund :: "refund_entity option"

record gateway =
  keySecret :: string
  webhookSecret :: string
  hmac_sha256_hex :: "string \<Rightarrow> string \<Rightarrow> string"
  stringify :: "payment_webhook_data \<Rightarrow> string"
  orders_create :: "int \<Rightarrow> uuid \<Rightarrow> timestamp \<Rightarrow> error + gateway_order"
  payments_refund :: "string \<Rightarrow> int \<Rightarrow> uuid \<Rightarrow> string \<Rightarrow> error + refund_entity"

record create_payment_order_dto =
  c_dealId :: uuid
  c_amountInPaise :: int
  c_description :: string
  c_payerId :: uuid
  c_email :: string
  c_phone :: string
  c_userName :: string

record verify_payment_dto =
  v_razorpayOrderId :: string
  v_razorpayPaymentId :: string
  v_razorpaySignature :: string
  v_dealId :: uuid

definition payment_update ::
  "store \<Rightarrow> uuid \<Rightarrow> (payment \<Rightarrow> payment) \<Rightarrow> (store \<times> payment) option" where
  "payment_update st i f =
     (case find (\<lambda>p. pay_id p = i) (payments st) of
        None \<Rightarrow> None
      | Some p \<Rightarrow>
          Some (st\<lparr>payments := map (\<lambda>r. if pay_id r = i then f r else r) (payments st)\<rparr>, f p))"

definition log_create ::
  "store \<Rightarrow> uuid \<Rightarrow> string \<Rightarrow> string \<Rightarrow> gateway_data option \<Rightarrow> string option \<Rightarrow> timestamp
     \<Rightarrow> store" where
  "log_create st pid ev s dat err now =
     st\<lparr>paymentLogs := paymentLogs st @
        [\<lparr>log_paymentId = pid, event = ev, log_status = s, razorpayData = dat,
          errorMessage = err, createdAt = now\<rparr>]\<rparr>"

text \<open>
  Modelled from the spec: the Prisma schema with the column defaults of a Payment is not
  in the sources. The state machine of the spec starts a Payment in PENDING, with no
  gateway payment id, signature, method or timestamps.
\<close>

definition new_payment :: "uuid \<Rightarrow> create_payment_order_dto \<Rightarrow> string \<Rightarrow> payment" where
  "new_payment newId dto orderId =
     \<lparr>pay_id = newId, dealId = c_dealId dto, payerId = c_payerId dto,
      amount = c_amountInPaise dto, description = c_description dto,
      razorpayOrderId = orderId, razorpayPaymentId = None, razorpaySignature = None,
      pay_status = PAY_PENDING, pay_method = None,
      pay_notes = c_userName dto @ '','' @ c_email dto @ '','' @ c_phone dto,
      pay_completedAt = None, failedAt = None, refundedAt = None\<rparr>"

text \<open>
  \<^verbatim>\<open>createPaymentOrder\<close>. The amount in paise is \<^verbatim>\<open>Math.round(amount * 100)\<close> in the
  source, a floating-point computation; the model takes its result as the input.
\<close>

definition createPaymentOrder ::
  "gateway \<Rightarrow> store \<Rightarrow> create_payment_order_dto \<Rightarrow> timestamp \<Rightarrow> uuid
     \<Rightarrow> store \<times> (error + gateway_order)" where
  "createPaymentOrder gw st dto now newId =
     (case find (\<lambda>d. deal_id d = c_dealId dto) (deals st) of
        None \<Rightarrow> (st, Inl (Error ''Deal not found''))
      | Some d \<Rightarrow>
         if status d \<noteq> COMPLETED
         then (st, Inl (Error ''Deal must be completed before processing payment''))
         else
          (let existingPayment = find (\<lambda>p. dealId p = c_dealId dto) (payments st) in
           if (case existingPayment of None \<Rightarrow> False | Some p \<Rightarrow> pay_status p = PAY_COMPLETED)
           then (st, Inl (Error ''Payment already completed for this deal''))
           else
            (case orders_create gw (c_amountInPaise dto) (c_dealId dto) now of
               Inl e \<Rightarrow> (st, Inl e)
             | Inr order \<Rightarrow>
                (case (case existingPayment of
                         None \<Rightarrow>
                           (if list_ex (\<lambda>r. pay_id r = newId) (payments st) then None
                            else Some (st\<lparr>payments := payments st @
                                          [new_payment newId dto (order_id order)]\<rparr>,
                                       new_payment newId dto (order_id order)))
                       | Some p \<Rightarrow>
                           payment_update st (pay_id p)
                             (\<lambda>r. r\<lparr>razorpayOrderId := order_id order,
                                     pay_status := PAY_INITIATED\<rparr>)) of
                   None \<Rightarrow> (st, Inl (PrismaError ''P2002''))
                 | Some (st1, p) \<Rightarrow>
                    (log_create st1 (pay_id p) ''PAYMENT_INITIATED'' ''SUCCESS''
                       (Some (OrderData order)) None now,
                     Inr order)))))"

definition verifyPayment ::
  "gateway \<Rightarrow> store \<Rightarrow> verify_payment_dto \<Rightarrow> timestamp \<Rightarrow> store \<times> (error + payment)" where
  "verifyPayment gw st dto now =
     (case find (\<lambda>p. dealId p = v_dealId dto) (payments st) of
        None \<Rightarrow> (st, Inl (Error ''Payment record not found''))
      | Some p \<Rightarrow>
         if razorpayOrderId p \<noteq> v_razorpayOrderId dto
         then (st, Inl (Error ''Order ID mismatch''))
         else
          (let body = v_razorpayOrderId dto @ ''|'' @ v_razorpayPaymentId dto;
               expectedSignature = hmac_sha256_hex gw (keySecret gw) body
           in if expectedSignature \<noteq> v_razorpaySignature dto
              then (log_create st (pay_id p) ''SIGNATURE_VERIFICATION_FAILED'' ''FAILED'' None
                      (Some ''Signature verification failed'') now,
                    Inl (Error ''Invalid payment signature''))
              else
               (case payment_update st (pay_id p)
                       (\<lambda>r. r\<lparr>razorpayPaymentId := Some (v_razorpayPaymentId dto),
                               razorpaySignature := Some (v_razorpaySignature dto),
                               pay_status := PAY_COMPLETED,
                               pay_completedAt := Some now\<rparr>) of
                  None \<Rightarrow> (st, Inl (PrismaError ''P2025''))
                | Some (st1, updatedPayment) \<Rightarrow>
                   (case deal_update st1 (v_dealId dto)
                           (\<lambda>d. d\<lparr>paymentStatus := PAID,
                                   paymentId := Some (v_razorpayPaymentId dto)\<rparr>) of
                      None \<Rightarrow> (st1, Inl (PrismaError ''P2025''))
                    | Some (st2, _) \<Rightarrow>
                       (log_create st2 (pay_id p) ''PAYMENT_COMPLETED'' ''SUCCESS''
                          (Some (VerifiedIds (v_razorpayOrderId dto) (v_razorpayPaymentId dto)))
                          None now,
                        Inr updatedPayment)))))"

text \<open>
  \<^verbatim>\<open>mapPaymentMethod\<close> returns \<^verbatim>\<open>methodMap[method] || method\<close>, a string: the
  gateway's name mapped to the store's, or the gateway's name itself.
\<close>

definition methodMap :: "string \<Rightarrow> string option" where
  "methodMap m =
     (if m = ''card'' then Some ''CREDIT_CARD''
      else if m = ''debit_card'' then Some ''DEBIT_CARD''
      else if m = ''netbanking'' then Some ''NET_BANKING''
      else if m = ''upi'' then Some ''UPI''
      else if m = ''wallet'' then Some ''WALLET''
      else if m = ''emandate'' then Some ''EMI''
      else None)"

definition mapPaymentMethod :: "string \<Rightarrow> string" where
  "mapPaymentMethod m = (case methodMap m of Some v \<Rightarrow> v | None \<Rightarrow> m)"

text \<open>
  Modelled from the spec: the column the method is written to is declared in the Prisma
  schema, which is not in the sources; the data model of the spec gives it as a
  nullable enum. The store refuses an update whose method is not the name of a member.
\<close>

definition payment_method_of :: "string \<Rightarrow> PaymentMethod option" where
  "payment_method_of s =
     (if s = ''CREDIT_CARD'' then Some CREDIT_CARD
      else if s = ''DEBIT_CARD'' then Some DEBIT_CARD
      else if s = ''NET_BANKING'' then Some NET_BANKING
      else if s = ''UPI'' then Some UPI
      else if s = ''WALLET'' then Some WALLET
      else if s = ''EMI'' then Some EMI
      else None)"

definition handlePaymentAuthorized ::
  "store \<Rightarrow> payment_webhook_data \<Rightarrow> timestamp \<Rightarrow> store \<times> (error + unit)" where
  "handlePaymentAuthorized st payload now =
     (case wh_payment payload of
        None \<Rightarrow> (st, Inr ())
      | Some pe \<Rightarrow>
         (case find (\<lambda>p. razorpayOrderId p = pe_order_id pe) (payments st) of
            None \<Rightarrow> (st, Inr ())
          | Some dbPayment \<Rightarrow>
             (log_create st (pay_id dbPayment) ''PAYMENT_AUTHORIZED'' ''SUCCESS''
                (Some (PaymentData pe)) None now,
              Inr ())))"

definition handlePaymentCompleted ::
  "store \<Rightarrow> payment_webhook_data \<Rightarrow> timestamp \<Rightarrow> store \<times> (error + unit)" where
  "handlePaymentCompleted st payload now =
     (case wh_payment payload of
        None \<Rightarrow> (st, Inr ())
      | Some pe \<Rightarrow>
         (case find (\<lambda>p. razorpayPaymentId p = Some (pe_id pe)) (payments st) of
            None \<Rightarrow> (st, Inr ())
          | Some dbPayment \<Rightarrow>
             (case payment_method_of (mapPaymentMethod (pe_method pe)) of
                None \<Rightarrow> (st, Inl (PrismaError ''validation''))
              | Some m \<Rightarrow>
                 (case payment_update st (pay_id dbPayment)
                         (\<lambda>r. r\<lparr>pay_status := PAY_COMPLETED, pay_method := Some m,
                                 pay_completedAt := Some now\<rparr>) of
                    None \<Rightarrow> (st, Inl (PrismaError ''P2025''))
                  | Some (st1, _) \<Rightarrow>
                     (case deal_update st1 (dealId dbPayment)
                             (\<lambda>d. d\<lparr>paymentStatus := PAID, paymentId := Some (pe_id pe)\<rparr>) of
                        None \<Rightarrow> (st1, Inl (PrismaError ''P2025''))
                      | Some (st2, _) \<Rightarrow>
                         (log_create st2 (pay_id dbPayment) ''PAYMENT_COMPLETED'' ''SUCCESS''
                            (Some (PaymentData pe)) None now,
                          Inr ()))))))"

definition handlePaymentFailed ::
  "store \<Rightarrow> payment_webhook_data \<Rightarrow> timestamp \<Rightarrow> store \<times> (error + unit)" where
  "handlePaymentFailed st payload now =
     (case wh_payment payload of
        None \<Rightarrow> (st, Inr ())
      | Some pe \<Rightarrow>
         (case find (\<lambda>p. razorpayOrderId p = pe_order_id pe) (payments st) of
            None \<Rightarrow> (st, Inr ())
          | Some dbPayment \<Rightarrow>
             (case payment_update st (pay_id dbPayment)
                     (\<lambda>r. r\<lparr>pay_status := PAY_FAILED, failedAt := Some now\<rparr>) of
                None \<Rightarrow> (st, Inl (PrismaError ''P2025''))
              | Some (st1, _) \<Rightarrow>
                 (log_create st1 (pay_id dbPayment) ''PAYMENT_FAILED'' ''FAILED''
                    (Some (PaymentData pe)) None now,
                  Inr ()))))"

definition handleRefundCompleted ::
  "store \<Rightarrow> payment_webhook_data \<Rightarrow> timestamp \<Rightarrow> store \<times> (error + unit)" where
  "handleRefundCompleted st payload now =
     (case wh_refund payload of
        None \<Rightarrow> (st, Inr ())
      | Some re \<Rightarrow>
         (case find (\<lambda>p. razorpayPaymentId p = Some (re_payment_id re)) (payments st) of
            None \<Rightarrow> (st, Inr ())
          | Some dbPayment \<Rightarrow>
             (case payment_update st (pay_id dbPayment)
                     (\<lambda>r. r\<lparr>pay_status := PAY_REFUNDED, refundedAt := Some now\<rparr>) of
                None \<Rightarrow> (st, Inl (PrismaError ''P2025''))
              | Some (st1, _) \<Rightarrow>
                 (log_create st1 (pay_id dbPayment) ''REFUND_COMPLETED'' ''SUCCESS''
                    (Some (RefundData re)) None now,
                  Inr ()))))"

definition handleWebhook ::
  "gateway \<Rightarrow> store \<Rightarrow> payment_webhook_data \<Rightarrow> string \<Rightarrow> timestamp \<Rightarrow> store \<times> (error + unit)" where
  "handleWebhook gw st webhookData webhookSignature now =
     (let body = stringify gw webhookData;
          expectedSignature = hmac_sha256_hex gw (webhookSecret gw) body
      in if expectedSignature \<noteq> webhookSignature
         then (st, Inl (Error ''Invalid webhook signature''))
         else if wh_event webhookData = ''payment.authorized''
           then handlePaymentAuthorized st webhookData now
         else if wh_event webhookData = ''payment.completed''
           then handlePaymentCompleted st webhookData now
         else if wh_event webhookData = ''payment.failed''
           then handlePaymentFailed st webhookData now
         else if wh_event webhookData = ''refund.completed''
           then handleRefundCompleted st webhookData now
         else (st, Inr ()))"

text \<open>
  \<^verbatim>\<open>orderBy: {createdAt: 'desc'}\<close>: newest first. The order among rows of equal
  time is the database's; here it is the reverse of insertion.
\<close>

definition orderBy_createdAt_desc :: "paymentLog list \<Rightarrow> paymentLog list" where
  "orderBy_createdAt_desc ls = rev (sort_key createdAt ls)"

definition getPaymentDetails ::
  "store \<Rightarrow> uuid \<Rightarrow> store \<times> (error + (payment \<times> paymentLog list) option)" where
  "getPaymentDetails st i =
     (case find (\<lambda>p. dealId p = i) (payments st) of
        None \<Rightarrow> (st, Inr None)
      | Some p \<Rightarrow>
         (st, Inr (Some (p, orderBy_createdAt_desc
                              (filter (\<lambda>l. log_paymentId l = pay_id p) (paymentLogs st))))))"

text \<open>
  \<^verbatim>\<open>reason || 'Manual refund'\<close>: an absent and an empty string are falsy. The same test
  guards the gateway payment id of the row.
\<close>

fun or_default :: "string option \<Rightarrow> string \<Rightarrow> string" where
  "or_default None d = d"
| "or_default (Some s) d = (if s = [] then d else s)"

definition refundPayment ::
  "gateway \<Rightarrow> store \<Rightarrow> uuid \<Rightarrow> string option \<Rightarrow> timestamp \<Rightarrow> store \<times> (error + refund_entity)" where
  "refundPayment gw st i reason now =
     (case find (\<lambda>p. dealId p = i) (payments st) of
        None \<Rightarrow> (st, Inl (Error ''Payment not found''))
      | Some p \<Rightarrow>
         (case razorpayPaymentId p of
            None \<Rightarrow> (st, Inl (Error ''No Razorpay payment to refund''))
          | Some pid \<Rightarrow>
             if pid = [] then (st, Inl (Error ''No Razorpay payment to refund''))
             else if pay_status p \<noteq> PAY_COMPLETED
             then (st, Inl (Error ''Can only refund completed payments''))
             else
              (case payments_refund gw pid (amount p) i (or_default reason ''Manual refund'') of
                 Inl e \<Rightarrow> (st, Inl e)
               | Inr refund \<Rightarrow>
                  (log_create st (pay_id p) ''REFUND_INITIATED'' ''SUCCESS''
                     (Some (RefundData refund)) None now,
                   Inr refund))))"

text \<open>A call of the payment service, and the store it leaves.\<close>

datatype payment_op =
  CreateOrder create_payment_order_dto timestamp uuid
  | Verify verify_payment_dto timestamp
  | Webhook payment_webhook_data string timestamp
  | Refund uuid "string option" timestamp
  | GetDetails uuid

fun payment_step :: "gateway \<Rightarrow> store \<Rightarrow> payment_op \<Rightarrow> store" where
  "payment_step gw st (CreateOrder dto now newId) = fst (createPaymentOrder gw st dto now newId)"
| "payment_step gw st (Verify dto now) = fst (verifyPayment gw st dto now)"
| "payment_step gw st (Webhook d s now) = fst (handleWebhook gw st d s now)"
| "payment_step gw st (Refund i reason now) = fst (refundPayment gw st i reason now)"
| "payment_step gw st (GetDetails i) = fst (getPaymentDetails st i)"

section \<open>HTTP boundary of the payment service\<close>

text \<open>
  A response is the status code and the JSON body \<^verbatim>\<open>{success, message, data}\<close>, or
  \<^verbatim>\<open>{success: false, error: {message, code}}\<close>.

  The data of a response is a JSON view of the rows. A column holding a time is a
  \<^verbatim>\<open>Date\<close> object in a row that Prisma returns, and \<^verbatim>\<open>null\<close> when it is unset; in
  the view it is a \<open>json_date\<close>. All other columns of a payment and of a log row are
  numbers, strings and \<^verbatim>\<open>null\<close>.
\<close>

datatype json_date = DateValue timestamp | EmptyObject

record payment_json =
  json_id :: uuid
  json_dealId :: uuid
  json_payerId :: uuid
  json_amount :: int
  json_description :: string
  json_razorpayOrderId :: string
  json_razorpayPaymentId :: "string option"
  json_razorpaySignature :: "string option"
  json_status :: PaymentStatus
  json_method :: "PaymentMethod option"
  json_notes :: string
  json_completedAt :: "json_date option"
  json_failedAt :: "json_date option"
  json_refundedAt :: "json_date option"

record paymentLog_json =
  json_log_paymentId :: uuid
  json_event :: string
  json_log_status :: string
  json_razorpayData :: "gateway_data option"
  json_errorMessage :: "string option"
  json_createdAt :: json_date

definition payment_to_json :: "payment \<Rightarrow> payment_json" where
  "payment_to_json p =
     \<lparr>json_id = pay_id p, json_dealId = dealId p, json_payerId = payerId p,
      json_amount = amount p, json_description = description p,
      json_razorpayOrderId = razorpayOrderId p,
      json_razorpayPaymentId = razorpayPaymentId p,
      json_razorpaySignature = razorpaySignature p, json_status = pay_status p,
      json_method = pay_method p, json_notes = pay_notes p,
      json_completedAt = map_option DateValue (pay_completedAt p),
      json_failedAt = map_option DateValue (failedAt p),
      json_refundedAt = map_option DateValue (refundedAt p)\<rparr>"

definition paymentLog_to_json :: "paymentLog \<Rightarrow> paymentLog_json" where
  "paymentLog_to_json l =
     \<lparr>json_log_paymentId = log_paymentId l, json_event = event l,
      json_log_status = log_status l, json_razorpayData = razorpayData l,
      json_errorMessage = errorMessage l, json_createdAt = DateValue (createdAt l)\<rparr>"

datatype response_data = NoData | PaymentDetails payment_json "paymentLog_json list"

text \<open>
  \<^verbatim>\<open>sanitizeData\<close> returns \<^verbatim>\<open>null\<close> and \<^verbatim>\<open>undefined\<close> as they are, maps itself over
  an array, rebuilds every other object from its \<^verbatim>\<open>Object.entries\<close>, without the keys
  of \<^verbatim>\<open>SENSITIVE_FIELDS\<close> and the keys that start with an underscore, and returns
  numbers and strings as they are. No key of a payment or of a log row is dropped. A
  \<^verbatim>\<open>Date\<close> is an object without own enumerable properties, so it is rebuilt as the
  empty object \<^verbatim>\<open>{}\<close>, and so is \<^verbatim>\<open>{}\<close> itself.
\<close>

definition sanitize_date :: "json_date \<Rightarrow> json_date" where
  "sanitize_date d = EmptyObject"

definition sanitize_payment :: "payment_json \<Rightarrow> payment_json" where
  "sanitize_payment p =
     p\<lparr>json_completedAt := map_option sanitize_date (json_completedAt p),
       json_failedAt := map_option sanitize_date (json_failedAt p),
       json_refundedAt := map_option sanitize_date (json_refundedAt p)\<rparr>"

definition sanitize_paymentLog :: "paymentLog_json \<Rightarrow> paymentLog_json" where
  "sanitize_paymentLog l = l\<lparr>json_createdAt := sanitize_date (json_createdAt l)\<rparr>"

fun sanitizeData :: "response_data \<Rightarrow> response_data" where
  "sanitizeData NoData = NoData"
| "sanitizeData (PaymentDetails p ls) =
     PaymentDetails (sanitize_payment p) (map sanitize_paymentLog ls)"

record response =
  res_status :: nat
  res_success :: bool
  res_message :: string
  res_code :: string
  res_data :: response_data

text \<open>
  \<^verbatim>\<open>sendSuccess\<close> answers 200 and sanitises the data it is given; \<open>NoData\<close> is a call
  without \<^verbatim>\<open>data\<close>.
\<close>

definition sendSuccess :: "response_data \<Rightarrow> string \<Rightarrow> response" where
  "sendSuccess dat msg =
     \<lparr>res_status = 200, res_success = True, res_message = msg, res_code = [],
      res_data = sanitizeData dat\<rparr>"

text \<open>
  The error classes. A thrown error carries its message, status code and code, and the
  class whose prototype it has. The constructor of \<^verbatim>\<open>AppError\<close> ends with
  \<^verbatim>\<open>Object.setPrototypeOf(this, AppError.prototype)\<close>, and every subclass constructs
  through it: an error made by \<^verbatim>\<open>new NotFoundError(...)\<close> has the status code and the
  code of a \<^verbatim>\<open>NotFoundError\<close> and the prototype of \<^verbatim>\<open>AppError\<close>.
  \<^verbatim>\<open>e instanceof C\<close> holds when the prototype of \<^verbatim>\<open>C\<close> is on the prototype chain of
  \<^verbatim>\<open>e\<close>, that is when the class of the prototype of \<^verbatim>\<open>e\<close> is \<^verbatim>\<open>C\<close> or extends it.
\<close>

datatype error_class =
  Error_class | AppError_class | BadRequestError_class | UnauthorizedError_class
  | NotFoundError_class

record app_error =
  err_message :: string
  err_statusCode :: nat
  err_code :: string
  err_prototype :: error_class

fun class_extends :: "error_class \<Rightarrow> error_class option" where
  "class_extends Error_class = None"
| "class_extends AppError_class = Some Error_class"
| "class_extends BadRequestError_class = Some AppError_class"
| "class_extends UnauthorizedError_class = Some AppError_class"
| "class_extends NotFoundError_class = Some AppError_class"

definition instanceof :: "app_error \<Rightarrow> error_class \<Rightarrow> bool" where
  "instanceof e c \<longleftrightarrow>
     err_prototype e = c \<or> class_extends (err_prototype e) = Some c
     \<or> (case class_extends (err_prototype e) of
           None \<Rightarrow> False
         | Some c1 \<Rightarrow> class_extends c1 = Some c)"

definition AppError :: "string \<Rightarrow> nat \<Rightarrow> string \<Rightarrow> app_error" where
  "AppError msg statusCode code =
     \<lparr>err_message = msg, err_statusCode = statusCode, err_code = code,
      err_prototype = AppError_class\<rparr>"

definition UnauthorizedError :: "string \<Rightarrow> app_error" where
  "UnauthorizedError msg = AppError msg 401 ''UNAUTHORIZED''"

definition NotFoundError :: "string \<Rightarrow> app_error" where
  "NotFoundError msg = AppError msg 404 ''NOT_FOUND''"

definition BadRequestError :: "string \<Rightarrow> app_error" where
  "BadRequestError msg = AppError msg 400 ''BAD_REQUEST''"

text \<open>
  An error thrown by a handler wrapped in \<^verbatim>\<open>asyncAuthHandler\<close> reaches the error
  middleware. Every error of this model is made by the constructor of \<^verbatim>\<open>AppError\<close>,
  so the middleware's first test \<^verbatim>\<open>err instanceof AppError\<close> holds and it answers with
  the error's status code, message and code.
\<close>

definition errorHandler :: "app_error \<Rightarrow> response" where
  "errorHandler err =
     \<lparr>res_status = err_statusCode err, res_success = False, res_message = err_message err,
      res_code = err_code err, res_data = NoData\<rparr>"

fun error_message :: "error \<Rightarrow> string" where
  "error_message (Error m) = m"
| "error_message (PrismaError m) = m"

text \<open>
  \<^verbatim>\<open>isValidUUID\<close>: the regular expression
  \<^verbatim>\<open>/^[0-9a-f]{8}-[0-9a-f]{4}-[1-5][0-9a-f]{3}-[89ab][0-9a-f]{3}-[0-9a-f]{12}$/i\<close>.
\<close>

definition is_hex :: "char \<Rightarrow> bool" where
  "is_hex c \<longleftrightarrow> c \<in> set ''0123456789abcdefABCDEF''"

definition isValidUUID :: "string \<Rightarrow> bool" where
  "isValidUUID u \<longleftrightarrow>
     length u = 36 \<and>
     list_all is_hex (take 8 u) \<and> u ! 8 = CHR ''-'' \<and>
     list_all is_hex (take 4 (drop 9 u)) \<and> u ! 13 = CHR ''-'' \<and>
     u ! 14 \<in> set ''12345'' \<and> list_all is_hex (take 3 (drop 15 u)) \<and> u ! 18 = CHR ''-'' \<and>
     u ! 19 \<in> set ''89abAB'' \<and> list_all is_hex (take 3 (drop 20 u)) \<and> u ! 23 = CHR ''-'' \<and>
     list_all is_hex (drop 24 u)"

text \<open>
  \<^verbatim>\<open>PaymentController.getPaymentDetails\<close>; \<open>user\<close> is \<^verbatim>\<open>req.user\<close> (the user id of the
  token, when there is one) and \<open>i\<close> the \<^verbatim>\<open>dealId\<close> of the path.

  The service call, the test for \<^verbatim>\<open>null\<close> and the answer are inside one \<^verbatim>\<open>try\<close>. Its
  \<^verbatim>\<open>catch\<close> rethrows the error when it is an instance of \<^verbatim>\<open>NotFoundError\<close> and throws
  a \<^verbatim>\<open>BadRequestError\<close> with the same message otherwise: \<open>getPaymentDetails_catch\<close> for
  an error made by \<^verbatim>\<open>AppError\<close>. An error of the service is a plain \<^verbatim>\<open>Error\<close>, which
  is no instance of \<^verbatim>\<open>NotFoundError\<close>. The data is sanitised by the handler and again
  by \<^verbatim>\<open>sendSuccess\<close>.
\<close>

definition getPaymentDetails_catch :: "app_error \<Rightarrow> app_error" where
  "getPaymentDetails_catch err =
     (if instanceof err NotFoundError_class then err
      else BadRequestError (err_message err))"

definition PaymentController_getPaymentDetails ::
  "store \<Rightarrow> uuid option \<Rightarrow> string \<Rightarrow> store \<times> response" where
  "PaymentController_getPaymentDetails st user i =
     (if user = None then (st, errorHandler (UnauthorizedError ''Not authenticated''))
      else if \<not> isValidUUID i then (st, errorHandler (BadRequestError ''Invalid deal ID''))
      else
       (case getPaymentDetails st i of
          (st1, Inl e) \<Rightarrow> (st1, errorHandler (BadRequestError (error_message e)))
        | (st1, Inr None) \<Rightarrow>
            (st1, errorHandler (getPaymentDetails_catch (NotFoundError ''Payment not found'')))
        | (st1, Inr (Some (p, ls))) \<Rightarrow>
            (st1, sendSuccess
                    (sanitizeData
                       (PaymentDetails (payment_to_json p) (map paymentLog_to_json ls)))
                    ''Payment details retrieved successfully'')))"

text \<open>
  \<^verbatim>\<open>PaymentController.handleWebhook\<close>; \<open>signature\<close> is the header
  \<^verbatim>\<open>x-razorpay-signature\<close>. Every error is caught inside the handler, the one thrown
  for a missing or empty header included, and answered like a success.
\<close>

definition PaymentController_handleWebhook ::
  "gateway \<Rightarrow> store \<Rightarrow> string option \<Rightarrow> payment_webhook_data \<Rightarrow> timestamp
     \<Rightarrow> store \<times> response" where
  "PaymentController_handleWebhook gw st signature body now =
     (case (case signature of
              None \<Rightarrow> (st, Inl (Error ''Missing webhook signature''))
            | Some s \<Rightarrow>
                if s = [] then (st, Inl (Error ''Missing webhook signature''))
                else handleWebhook gw st body s now) of
        (st1, Inr _) \<Rightarrow> (st1, sendSuccess NoData ''Webhook processed successfully'')
      | (st1, Inl _) \<Rightarrow> (st1, sendSuccess NoData ''Webhook received''))"

section \<open>Example data\<close>

text \<open>A conversation between one owner and one tenant about one listed property.\<close>

definition prop1 :: uuid where "prop1 = ''aaaaaaaa-0000-4000-8000-000000000001''"
definition conv1 :: uuid where "conv1 = ''bbbbbbbb-0000-4000-8000-000000000001''"
definition owner1 :: uuid where "owner1 = ''cccccccc-0000-4000-8000-000000000001''"
definition tenant1 :: uuid where "tenant1 = ''dddddddd-0000-4000-8000-000000000001''"
definition deal1 :: uuid where "deal1 = ''eeeeeeee-0000-4000-8000-000000000001''"
definition deal2 :: uuid where "deal2 = ''eeeeeeee-0000-4000-8000-000000000002''"

definition demo_store :: store where
  "demo_store =
     \<lparr>conversations = [\<lparr>conv_id = conv1, conv_propertyId = prop1, conv_ownerId = owner1,
                         conv_tenantId = tenant1\<rparr>],
      properties = [\<lparr>prop_id = prop1, title = ''2BHK in Baner'', rentAmount = 12000,
                      prop_status = ACTIVE\<rparr>],
      deals = [], payments = [], paymentLogs = [], outbox = []\<rparr>"

text \<open>The deal of that conversation once both parties have confirmed a rent of 9000.\<close>

definition completed_deal :: deal where
  "completed_deal =
     \<lparr>deal_id = deal1, conversationId = conv1, propertyId = prop1, ownerId = owner1,
      tenantId = tenant1, agreedRent = 9000, ownerConfirmed = True, ownerConfirmedAt = Some 100,
      tenantConfirmed = True, tenantConfirmedAt = Some 200, status = COMPLETED,
      successFeeAmount = Some 299, completedAt = Some 200, paymentStatus = UNPAID,
      paymentId = None\<rparr>"

definition completed_store :: store where
  "completed_store = demo_store\<lparr>deals := [completed_deal]\<rparr>"

text \<open>The deal of that conversation after the owner alone confirmed at the listed rent.\<close>

definition listed_rent_deal :: deal where
  "listed_rent_deal =
     \<lparr>deal_id = deal1, conversationId = conv1, propertyId = prop1, ownerId = owner1,
      tenantId = tenant1, agreedRent = 12000, ownerConfirmed = True, ownerConfirmedAt = Some 100,
      tenantConfirmed = False, tenantConfirmedAt = None, status = PENDING_TENANT,
      successFeeAmount = None, completedAt = None, paymentStatus = UNPAID,
      paymentId = None\<rparr>"

text \<open>
  The same deal as the tenant's confirming write leaves it, both flags set and the fee
  not yet assigned: the row on which the completion runs.
\<close>

definition confirmed_deal :: deal where
  "confirmed_deal = listed_rent_deal\<lparr>tenantConfirmed := True, tenantConfirmedAt := Some 200,
     status := COMPLETED\<rparr>"

definition pay1 :: uuid where "pay1 = ''ffffffff-0000-4000-8000-000000000001''"

text \<open>
  A gateway for the examples. Its \<open>hmac_sha256_hex\<close> is not the digest: the properties
  below hold for every such function, and an example only needs one whose values differ
  on the inputs at hand.
\<close>

definition demo_gateway :: gateway where
  "demo_gateway =
     \<lparr>keySecret = ''key-secret'', webhookSecret = ''webhook-secret'',
      hmac_sha256_hex = (\<lambda>k m. ''mac('' @ k @ '','' @ m @ '')''),
      stringify = (\<lambda>d. wh_event d),
      orders_create = (\<lambda>a d n. Inr \<lparr>order_id = ''order_1'', order_currency = ''INR'',
                                      order_receipt = ''deal_'' @ d\<rparr>),
      payments_refund = (\<lambda>pid a d r. Inr \<lparr>re_id = ''rfnd_1'', re_payment_id = pid\<rparr>)\<rparr>"

text \<open>The payment of the completed deal: after the order was created, and after it was verified.\<close>

definition initiated_payment :: payment where
  "initiated_payment =
     \<lparr>pay_id = pay1, dealId = deal1, payerId = tenant1, amount = 29900,
      description = ''Platform success fee for rental agreement'',
      razorpayOrderId = ''order_1'', razorpayPaymentId = None, razorpaySignature = None,
      pay_status = PAY_INITIATED, pay_method = None, pay_notes = [],
      pay_completedAt = None, failedAt = None, refundedAt = None\<rparr>"

definition initiated_log :: paymentLog where
  "initiated_log =
     \<lparr>log_paymentId = pay1, event = ''PAYMENT_INITIATED'', log_status = ''SUCCESS'',
      razorpayData = Some (OrderData \<lparr>order_id = ''order_1'', order_currency = ''INR'',
                                      order_receipt = ''deal_'' @ deal1\<rparr>),
      errorMessage = None, createdAt = 400\<rparr>"

definition initiated_store :: store where
  "initiated_store = completed_store\<lparr>payments := [initiated_payment],
     paymentLogs := [initiated_log]\<rparr>"

definition good_signature :: string where
  "good_signature = ''mac(key-secret,order_1|pay_1)''"

definition good_dto :: verify_payment_dto where
  "good_dto = \<lparr>v_razorpayOrderId = ''order_1'', v_razorpayPaymentId = ''pay_1'',
     v_razorpaySignature = good_signature, v_dealId = deal1\<rparr>"

definition paid_payment :: payment where
  "paid_payment = initiated_payment\<lparr>razorpayPaymentId := Some ''pay_1'',
     razorpaySignature := Some good_signature, pay_status := PAY_COMPLETED,
     pay_completedAt := Some 500\<rparr>"

definition paid_log :: paymentLog where
  "paid_log =
     \<lparr>log_paymentId = pay1, event = ''PAYMENT_COMPLETED'', log_status = ''SUCCESS'',
      razorpayData = Some (VerifiedIds ''order_1'' ''pay_1''), errorMessage = None,
      createdAt = 500\<rparr>"

definition paid_store :: store where
  "paid_store = completed_store\<lparr>
     deals := [completed_deal\<lparr>paymentStatus := PAID, paymentId := Some ''pay_1''\<rparr>],
     payments := [paid_payment], paymentLogs := [initiated_log, paid_log]\<rparr>"

text \<open>Two webhook bodies for that payment.\<close>

definition completed_event :: payment_webhook_data where
  "completed_event = \<lparr>wh_event = ''payment.completed'',
     wh_payment = Some \<lparr>pe_id = ''pay_1'', pe_order_id = ''order_1'', pe_amount = 29900,
                       pe_method = ''upi''\<rparr>,
     wh_refund = None\<rparr>"

definition refund_event :: payment_webhook_data where
  "refund_event = \<lparr>wh_event = ''refund.completed'', wh_payment = None,
     wh_refund = Some \<lparr>re_id = ''rfnd_1'', re_payment_id = ''pay_1''\<rparr>\<rparr>"

lemmas demo_ids = prop1_def conv1_def owner1_def tenant1_def deal1_def deal2_def

lemmas deal_service_defs =
  ownerConfirmDeal_def tenantConfirmDeal_def cancelDeal_def getOrCreateDeal_def
  completeDeal_def confirm_finish_def deal_create_def deal_update_def property_update_def
  send_email_def getDealWithDetails_def new_deal_def

lemma fee_table:
  "calculateSuccessFee r = (if r < 10000 then 299 else if r < 25000 then 499 else 999)"
  by (simp add: calculateSuccessFee_def successFeeSlabs_def)

lemmas payment_service_defs =
  verifyPayment_def handleWebhook_def handlePaymentAuthorized_def handlePaymentCompleted_def
  handlePaymentFailed_def handleRefundCompleted_def refundPayment_def getPaymentDetails_def
  payment_update_def deal_update_def log_create_def

lemmas payment_demo_defs =
  demo_gateway_def initiated_payment_def initiated_log_def initiated_store_def
  good_signature_def good_dto_def paid_payment_def paid_log_def paid_store_def
  completed_store_def completed_deal_def demo_store_def pay1_def demo_ids

lemma paid_store_is_verified:
  "verifyPayment demo_gateway initiated_store good_dto 500 = (paid_store, Inr paid_payment)"
  by (simp add: payment_service_defs payment_demo_defs)

section \<open>The deal table under the service's operations\<close>

text \<open>
  What every call of the deal service keeps true of the deal table: identifiers are
  distinct, a row is COMPLETED exactly when both flags are set, its property exists, and
  its success fee is the slab fee of its rent when it is COMPLETED and unset otherwise.
  Between the confirming write and the completion that follows it, the row just written
  may carry a fee that is out of date; \<open>deals_ok_but\<close> allows that for one row.
\<close>

definition flags_ok :: "deal \<Rightarrow> bool" where
  "flags_ok d \<longleftrightarrow> (status d = COMPLETED) = (ownerConfirmed d \<and> tenantConfirmed d)"

definition fee_ok :: "deal \<Rightarrow> bool" where
  "fee_ok d \<longleftrightarrow>
     successFeeAmount d =
       (if status d = COMPLETED then Some (calculateSuccessFee (agreedRent d)) else None)"

definition has_property :: "store \<Rightarrow> deal \<Rightarrow> bool" where
  "has_property st d \<longleftrightarrow> propertyId d \<in> set (map prop_id (properties st))"

definition deals_ok_but :: "store \<Rightarrow> uuid \<Rightarrow> bool" where
  "deals_ok_but st i \<longleftrightarrow>
     distinct (map deal_id (deals st)) \<and>
     (\<forall>d\<in>set (deals st). flags_ok d \<and> has_property st d \<and>
        (fee_ok d \<or> (deal_id d = i \<and> ownerConfirmed d \<and> tenantConfirmed d)))"

definition deals_ok :: "store \<Rightarrow> bool" where
  "deals_ok st \<longleftrightarrow>
     distinct (map deal_id (deals st)) \<and>
     (\<forall>d\<in>set (deals st). flags_ok d \<and> has_property st d \<and> fee_ok d)"

lemma find_in_set: "find P xs = Some x \<Longrightarrow> x \<in> set xs \<and> P x"
  by (auto simp: find_Some_iff)

lemma find_by_id:
  assumes "distinct (map deal_id ds)" and "d \<in> set ds"
  shows "find (\<lambda>r. deal_id r = deal_id d) ds = Some d"
  using assms by (induction ds) auto

lemma same_id_same_row:
  assumes "distinct (map deal_id ds)" and "a \<in> set ds" and "b \<in> set ds"
    and "deal_id a = deal_id b"
  shows "a = b"
  using assms by (meson distinct_map inj_onD)

lemma map_ids_unchanged:
  assumes "\<And>r. deal_id (f r) = deal_id r"
  shows "map deal_id (map (\<lambda>r. if deal_id r = i then f r else r) ds) = map deal_id ds"
  using assms by (induction ds) auto

lemma deal_update_Some:
  assumes "deal_update st i f = Some (st1, d)"
  shows "\<exists>d0. find (\<lambda>r. deal_id r = i) (deals st) = Some d0 \<and> d = f d0 \<and>
           st1 = st\<lparr>deals := map (\<lambda>r. if deal_id r = i then f r else r) (deals st)\<rparr>"
  using assms by (auto simp: deal_update_def split: option.splits)

lemma deal_update_found:
  assumes "find (\<lambda>r. deal_id r = i) (deals st) = Some d0"
  shows "deal_update st i f =
           Some (st\<lparr>deals := map (\<lambda>r. if deal_id r = i then f r else r) (deals st)\<rparr>, f d0)"
  using assms by (simp add: deal_update_def)

lemma updated_rows:
  assumes "distinct (map deal_id ds)" and "d0 \<in> set ds"
    and "d \<in> set (map (\<lambda>r. if deal_id r = deal_id d0 then f r else r) ds)"
  shows "d = f d0 \<or> (d \<in> set ds \<and> deal_id d \<noteq> deal_id d0)"
  using assms same_id_same_row[OF assms(1)] by auto





lemma update_finds:
  assumes "find (\<lambda>r. deal_id r = i) ds = Some d0"
    and "\<And>r. deal_id (f r) = deal_id r"
  shows "find (\<lambda>r. deal_id r = i) (map (\<lambda>r. if deal_id r = i then f r else r) ds) = Some (f d0)"
  using assms by (induction ds) (auto split: if_splits)



lemma deals_ok_send_email [simp]:
  "deals_ok (send_email st m) = deals_ok st"
  "deals_ok_but (send_email st m) i = deals_ok_but st i"
  "deals (send_email st m) = deals st"
  "properties (send_email st m) = properties st"
  by (simp_all add: send_email_def deals_ok_def deals_ok_but_def has_property_def)



lemma find_append_new:
  assumes "\<not> list_ex P xs" and "P d"
  shows "find P (xs @ [d]) = Some d"
  using assms by (induction xs) auto












lemma completeDeal_Inr:
  assumes "completeDeal st i now = (st', Inr d)"
  shows "find (\<lambda>r. deal_id r = i) (deals st) = Some d \<and>
         deals st' = map (\<lambda>r. if deal_id r = i
                          then r\<lparr>status := COMPLETED, completedAt := Some now,
                                 successFeeAmount := Some (calculateSuccessFee (agreedRent d))\<rparr>
                          else r) (deals st) \<and>
         getDealWithDetails st' i =
           Some (d\<lparr>status := COMPLETED, completedAt := Some now,
                   successFeeAmount := Some (calculateSuccessFee (agreedRent d))\<rparr>)"
proof -
  let ?f = "\<lambda>r. r\<lparr>status := COMPLETED, completedAt := Some now,
                    successFeeAmount := Some (calculateSuccessFee (agreedRent d))\<rparr>"
  from assms have fd: "find (\<lambda>r. deal_id r = i) (deals st) = Some d"
    and st': "deals st' = map (\<lambda>r. if deal_id r = i then ?f r else r) (deals st)"
    by (auto simp: completeDeal_def deal_update_def property_update_def send_email_def
             split: option.splits)
  show ?thesis
    using fd update_finds[OF fd, of ?f] by (simp add: getDealWithDetails_def st')
qed

lemma confirm_finish_Inr:
  assumes fd: "find (\<lambda>r. deal_id r = deal_id d) (deals st) = Some d"
    and c: "confirm_finish st d now = (st', Inr res)"
  shows "res = Some (if ownerConfirmed d \<and> tenantConfirmed d
                     then d\<lparr>status := COMPLETED, completedAt := Some now,
                            successFeeAmount := Some (calculateSuccessFee (agreedRent d))\<rparr>
                     else d) \<and>
         getDealWithDetails st' (deal_id d) = res"
proof (cases "ownerConfirmed d \<and> tenantConfirmed d")
  case True
  with c obtain d1 where cd: "completeDeal st (deal_id d) now = (st', Inr d1)"
    and res: "res = getDealWithDetails st' (deal_id d)"
    by (auto simp: confirm_finish_def split: prod.splits sum.splits)
  from completeDeal_Inr[OF cd] fd have "d1 = d" by simp
  with completeDeal_Inr[OF cd] res True show ?thesis by simp
next
  case False
  with c have "st' = st" and "res = getDealWithDetails st (deal_id d)"
    by (auto simp: confirm_finish_def)
  with fd False show ?thesis by (auto simp: getDealWithDetails_def)
qed

lemma ownerConfirmDeal_Inr:
  assumes "ownerConfirmDeal st cid oid r now newId = (st', Inr res)"
  shows "\<exists>c pp d. find (\<lambda>c. conv_id c = cid \<and> conv_ownerId c = oid) (conversations st) = Some c \<and>
           find (\<lambda>p. prop_id p = conv_propertyId c) (properties st) = Some pp \<and>
           res = Some d \<and> getDealWithDetails st' (deal_id d) = Some d \<and>
           agreedRent d = js_or r (rentAmount pp) \<and> ownerConfirmed d \<and>
           (status d = COMPLETED \<or> status d = PENDING_TENANT)"
proof -
  from assms obtain c where c: "find (\<lambda>c. conv_id c = cid \<and> conv_ownerId c = oid) (conversations st) = Some c"
    by (auto simp: ownerConfirmDeal_def split: option.splits)
  from assms c obtain pp where pp: "find (\<lambda>p. prop_id p = conv_propertyId c) (properties st) = Some pp"
    by (auto simp: ownerConfirmDeal_def split: option.splits)
  let ?rent = "js_or r (rentAmount pp)"
  have cid: "conv_id c = cid" using find_in_set[OF c] by simp
  have "\<exists>d. res = Some d \<and> getDealWithDetails st' (deal_id d) = Some d \<and>
           agreedRent d = ?rent \<and> ownerConfirmed d \<and>
           (status d = COMPLETED \<or> status d = PENDING_TENANT)"
  proof (cases "find (\<lambda>d. conversationId d = cid) (deals st)")
    case None
    let ?d = "(new_deal newId c ?rent PENDING_TENANT)\<lparr>ownerConfirmed := True, ownerConfirmedAt := Some now\<rparr>"
    let ?m = "DealCreatedEmail (conv_tenantId c) (title pp) ?rent ''tenant''"
    from assms c pp None obtain st1 d1 where cr: "deal_create st ?d = Some (st1, d1)"
      and cf: "confirm_finish (send_email st1 ?m) d1 now = (st', Inr res)"
      by (auto simp: ownerConfirmDeal_def Let_def split: option.splits)
    from cr have d1: "d1 = ?d" and st1: "st1 = st\<lparr>deals := deals st @ [?d]\<rparr>"
      and fresh: "\<not> list_ex (\<lambda>r. deal_id r = deal_id ?d) (deals st)"
      by (auto simp: deal_create_def list_ex_iff split: if_splits)
    have fd: "find (\<lambda>r. deal_id r = deal_id d1) (deals (send_email st1 ?m)) = Some d1"
      using find_append_new[OF fresh] by (simp add: d1 st1)
    from confirm_finish_Inr[OF fd cf] show ?thesis
      by (simp add: d1 new_deal_def)
  next
    case (Some d0)
    let ?f = "\<lambda>r. r\<lparr>ownerConfirmed := True, ownerConfirmedAt := Some now, agreedRent := ?rent,
                      status := (if tenantConfirmed d0 then COMPLETED else PENDING_TENANT)\<rparr>"
    from assms c pp Some obtain st1 d1 where up: "deal_update st (deal_id d0) ?f = Some (st1, d1)"
      and cf: "confirm_finish st1 d1 now = (st', Inr res)"
      by (auto simp: ownerConfirmDeal_def Let_def split: option.splits simp del: split_paired_Ex)
    from deal_update_Some[OF up] obtain d0' where
      fd0: "find (\<lambda>r. deal_id r = deal_id d0) (deals st) = Some d0'" and d1: "d1 = ?f d0'"
      and st1: "st1 = st\<lparr>deals := map (\<lambda>r. if deal_id r = deal_id d0 then ?f r else r) (deals st)\<rparr>"
      by auto
    have "d0 \<in> set (deals st)" "conversationId d0 = cid" using find_in_set[OF Some] by auto
    have fd: "find (\<lambda>r. deal_id r = deal_id d1) (deals st1) = Some d1"
      using update_finds[OF fd0, of ?f] find_in_set[OF fd0] by (simp add: d1 st1)
    from confirm_finish_Inr[OF fd cf] show ?thesis
      by (auto simp: d1)
  qed
  with c pp show ?thesis by blast
qed

lemma tenantConfirmDeal_Inr:
  assumes "tenantConfirmDeal st cid tid now newId = (st', Inr res)"
  shows "\<exists>d. res = Some d \<and> getDealWithDetails st' (deal_id d) = Some d \<and>
           tenantConfirmed d \<and> (status d = COMPLETED \<or> status d = PENDING_OWNER)"
proof -
  from assms obtain c where c: "find (\<lambda>c. conv_id c = cid \<and> conv_tenantId c = tid) (conversations st) = Some c"
    by (auto simp: tenantConfirmDeal_def split: option.splits)
  from assms c obtain pp where pp: "find (\<lambda>p. prop_id p = conv_propertyId c) (properties st) = Some pp"
    by (auto simp: tenantConfirmDeal_def split: option.splits)
  show ?thesis
  proof (cases "find (\<lambda>d. conversationId d = cid) (deals st)")
    case None
    let ?d = "(new_deal newId c (rentAmount pp) PENDING_OWNER)\<lparr>tenantConfirmed := True, tenantConfirmedAt := Some now\<rparr>"
    let ?m = "DealCreatedEmail (conv_ownerId c) (title pp) (rentAmount pp) ''owner''"
    from assms c pp None obtain st1 d1 where cr: "deal_create st ?d = Some (st1, d1)"
      and cf: "confirm_finish (send_email st1 ?m) d1 now = (st', Inr res)"
      by (auto simp: tenantConfirmDeal_def split: option.splits)
    from cr have d1: "d1 = ?d" and st1: "st1 = st\<lparr>deals := deals st @ [?d]\<rparr>"
      and fresh: "\<not> list_ex (\<lambda>r. deal_id r = deal_id ?d) (deals st)"
      by (auto simp: deal_create_def list_ex_iff split: if_splits)
    have fd: "find (\<lambda>r. deal_id r = deal_id d1) (deals (send_email st1 ?m)) = Some d1"
      using find_append_new[OF fresh] by (simp add: d1 st1)
    from confirm_finish_Inr[OF fd cf] show ?thesis
      by (simp add: d1 new_deal_def)
  next
    case (Some d0)
    let ?f = "\<lambda>r. r\<lparr>tenantConfirmed := True, tenantConfirmedAt := Some now,
                      status := (if ownerConfirmed d0 then COMPLETED else PENDING_OWNER)\<rparr>"
    from assms c pp Some obtain st1 d1 where up: "deal_update st (deal_id d0) ?f = Some (st1, d1)"
      and cf: "confirm_finish st1 d1 now = (st', Inr res)"
      by (auto simp: tenantConfirmDeal_def split: option.splits simp del: split_paired_Ex)
    from deal_update_Some[OF up] obtain d0' where
      fd0: "find (\<lambda>r. deal_id r = deal_id d0) (deals st) = Some d0'" and d1: "d1 = ?f d0'"
      and st1: "st1 = st\<lparr>deals := map (\<lambda>r. if deal_id r = deal_id d0 then ?f r else r) (deals st)\<rparr>"
      by auto
    have fd: "find (\<lambda>r. deal_id r = deal_id d1) (deals st1) = Some d1"
      using update_finds[OF fd0, of ?f] find_in_set[OF fd0] by (simp add: d1 st1)
    from confirm_finish_Inr[OF fd cf] show ?thesis
      by (auto simp: d1)
  qed
qed


lemma find_row:
  assumes dist: "distinct (map deal_id ds)" and mem: "d \<in> set ds"
  shows "find (\<lambda>r. deal_id r = deal_id d \<and> P r) ds = (if P d then Some d else None)"
proof (cases "P d")
  case True
  have "find (\<lambda>r. deal_id r = deal_id d \<and> P r) ds = Some d"
    using dist mem True
  proof (induction ds)
    case Nil
    then show ?case by simp
  next
    case (Cons a ds)
    show ?case
    proof (cases "a = d")
      case True
      with Cons.prems show ?thesis by simp
    next
      case False
      with Cons.prems have "d \<in> set ds" and "deal_id a \<noteq> deal_id d" by auto
      with Cons show ?thesis by simp
    qed
  qed
  with True show ?thesis by simp
next
  case False
  have "\<not> (deal_id x = deal_id d \<and> P x)" if "x \<in> set ds" for x
    using same_id_same_row[OF dist that mem] False by auto
  then have "find (\<lambda>r. deal_id r = deal_id d \<and> P r) ds = None"
    by (simp add: find_None_iff)
  with False show ?thesis by simp
qed

lemma cancelDeal_completed:
  assumes "distinct (map deal_id (deals st))" and "d \<in> set (deals st)" and "status d = COMPLETED"
  shows "cancelDeal st (deal_id d) u = (st, Inl (Error ''Deal not found or cannot be cancelled''))"
  using find_row[OF assms(1,2), of "\<lambda>r. (ownerId r = u \<or> tenantId r = u) \<and> status r \<noteq> COMPLETED"]
    assms(3)
  by (simp add: cancelDeal_def)

lemma cancelDeal_pending:
  assumes "distinct (map deal_id (deals st))" and "d \<in> set (deals st)"
    and "status d \<noteq> COMPLETED" and "ownerId d = u \<or> tenantId d = u"
  shows "snd (cancelDeal st (deal_id d) u) = Inr ''Deal cancelled'' \<and>
         deals (fst (cancelDeal st (deal_id d) u)) =
           map (\<lambda>r. if deal_id r = deal_id d then r\<lparr>status := CANCELLED\<rparr> else r) (deals st) \<and>
         getDealWithDetails (fst (cancelDeal st (deal_id d) u)) (deal_id d) =
           Some (d\<lparr>status := CANCELLED\<rparr>)"
proof -
  have f1: "find (\<lambda>r. deal_id r = deal_id d \<and> (ownerId r = u \<or> tenantId r = u) \<and> status r \<noteq> COMPLETED)
          (deals st) = Some d"
    using find_row[OF assms(1,2), of "\<lambda>r. (ownerId r = u \<or> tenantId r = u) \<and> status r \<noteq> COMPLETED"]
      assms(3,4) by simp
  have f2: "find (\<lambda>r. deal_id r = deal_id d) (deals st) = Some d"
    by (rule find_by_id[OF assms(1,2)])
  show ?thesis
    using f1 f2 update_finds[OF f2, of "\<lambda>r. r\<lparr>status := CANCELLED\<rparr>"]
    by (simp add: cancelDeal_def deal_update_def getDealWithDetails_def)
qed

lemma cancelDeal_rows:
  "deals (fst (cancelDeal st i u)) = deals st \<or>
   deals (fst (cancelDeal st i u)) =
     map (\<lambda>r. if deal_id r = i then r\<lparr>status := CANCELLED\<rparr> else r) (deals st)"
  by (auto simp: cancelDeal_def deal_update_def split: option.splits)

lemma cancelDeal_keeps_cancelled:
  assumes "distinct (map deal_id (deals st))" and "d \<in> set (deals st)" and "status d = CANCELLED"
  shows "getDealWithDetails (fst (cancelDeal st i u)) (deal_id d) = Some d"
proof -
  have f2: "find (\<lambda>r. deal_id r = deal_id d) (deals st) = Some d"
    by (rule find_by_id[OF assms(1,2)])
  have same: "d\<lparr>status := CANCELLED\<rparr> = d" using assms(3) by simp
  have "find (\<lambda>r. deal_id r = deal_id d)
          (map (\<lambda>r. if deal_id r = i then r\<lparr>status := CANCELLED\<rparr> else r) (deals st)) = Some d"
  proof (cases "i = deal_id d")
    case True
    with update_finds[OF f2, of "\<lambda>r. r\<lparr>status := CANCELLED\<rparr>"] same show ?thesis by simp
  next
    case False
    have "find (\<lambda>r. deal_id r = k) (map (\<lambda>r. if deal_id r = i then r\<lparr>status := CANCELLED\<rparr> else r) ds)
            = find (\<lambda>r. deal_id r = k) ds" if "k \<noteq> i" for k ds
      using that by (induction ds) auto
    from this[of "deal_id d" "deals st"] False f2 show ?thesis by auto
  qed
  with f2 cancelDeal_rows[of st i u] show ?thesis
    by (auto simp: getDealWithDetails_def)
qed

text \<open>
  The first two parts alone, identifiers distinct and COMPLETED exactly when both flags
  are set, are kept by every call from any store where they hold, also when a
  completion fails half-way.
\<close>

definition flags_rows :: "deal list \<Rightarrow> bool" where
  "flags_rows ds \<longleftrightarrow> distinct (map deal_id ds) \<and> (\<forall>d\<in>set ds. flags_ok d)"

lemma flags_rows_update:
  assumes ok: "flags_rows ds" and fd: "find (\<lambda>r. deal_id r = i) ds = Some d0"
    and idf: "\<And>r. deal_id (f r) = deal_id r" and fl: "flags_ok (f d0)"
  shows "flags_rows (map (\<lambda>r. if deal_id r = i then f r else r) ds)"
proof -
  from find_in_set[OF fd] have mem: "d0 \<in> set ds" and i: "i = deal_id d0" by auto
  from ok have dist: "distinct (map deal_id ds)" by (simp add: flags_rows_def)
  have "flags_ok d" if "d \<in> set (map (\<lambda>r. if deal_id r = i then f r else r) ds)" for d
    using updated_rows[OF dist mem that[unfolded i]] fl ok by (auto simp: flags_rows_def)
  then show ?thesis
    using dist by (simp add: flags_rows_def map_ids_unchanged[OF idf] del: map_map set_map)
qed

lemma completeDeal_deals:
  "deals (fst (completeDeal st i now)) = deals st \<or>
   (\<exists>d. find (\<lambda>r. deal_id r = i) (deals st) = Some d \<and>
      deals (fst (completeDeal st i now)) =
        map (\<lambda>r. if deal_id r = i
                  then r\<lparr>status := COMPLETED, completedAt := Some now,
                         successFeeAmount := Some (calculateSuccessFee (agreedRent d))\<rparr>
                  else r) (deals st))"
  by (auto simp: completeDeal_def deal_update_def property_update_def send_email_def Let_def
           split: option.splits)

lemma confirm_finish_flags:
  assumes ok: "flags_rows (deals st)"
    and fd: "find (\<lambda>r. deal_id r = deal_id d) (deals st) = Some d"
  shows "flags_rows (deals (fst (confirm_finish st d now)))"
proof (cases "ownerConfirmed d \<and> tenantConfirmed d")
  case True
  have "flags_rows (deals (fst (completeDeal st (deal_id d) now)))"
  proof (rule disjE[OF completeDeal_deals[of st "deal_id d" now]])
    assume "deals (fst (completeDeal st (deal_id d) now)) = deals st"
    with ok show ?thesis by simp
  next
    assume "\<exists>d'. find (\<lambda>r. deal_id r = deal_id d) (deals st) = Some d' \<and>
      deals (fst (completeDeal st (deal_id d) now)) =
        map (\<lambda>r. if deal_id r = deal_id d
                  then r\<lparr>status := COMPLETED, completedAt := Some now,
                         successFeeAmount := Some (calculateSuccessFee (agreedRent d'))\<rparr>
                  else r) (deals st)"
    with fd have e: "deals (fst (completeDeal st (deal_id d) now)) =
        map (\<lambda>r. if deal_id r = deal_id d
                  then r\<lparr>status := COMPLETED, completedAt := Some now,
                         successFeeAmount := Some (calculateSuccessFee (agreedRent d))\<rparr>
                  else r) (deals st)"
      by auto
    show ?thesis
      unfolding e by (rule flags_rows_update[OF ok fd]) (use True in \<open>simp_all add: flags_ok_def\<close>)
  qed
  with True show ?thesis
    by (auto simp: confirm_finish_def split: prod.splits sum.splits)
next
  case False
  with ok show ?thesis by (auto simp: confirm_finish_def)
qed

lemma flags_rows_create:
  assumes ok: "flags_rows (deals st)" and cr: "deal_create st d = Some (st1, d')"
    and fl: "flags_ok d"
  shows "flags_rows (deals st1) \<and> d' = d \<and>
         find (\<lambda>r. deal_id r = deal_id d) (deals st1) = Some d"
proof -
  from cr have new: "\<not> list_ex (\<lambda>r. deal_id r = deal_id d \<or> conversationId r = conversationId d) (deals st)"
    and st1: "st1 = st\<lparr>deals := deals st @ [d]\<rparr>" and d': "d' = d"
    by (auto simp: deal_create_def split: if_splits)
  from new have fresh: "\<not> list_ex (\<lambda>r. deal_id r = deal_id d) (deals st)"
    by (auto simp: list_ex_iff)
  have "flags_rows (deals st1)"
    using ok fl fresh by (auto simp: st1 flags_rows_def list_ex_iff)
  moreover have "find (\<lambda>r. deal_id r = deal_id d) (deals st1) = Some d"
    using find_append_new[OF fresh] by (simp add: st1)
  ultimately show ?thesis using d' by simp
qed

lemma ownerConfirmDeal_flags:
  assumes ok: "flags_rows (deals st)"
  shows "flags_rows (deals (fst (ownerConfirmDeal st cid oid r now newId)))"
proof (cases "find (\<lambda>c. conv_id c = cid \<and> conv_ownerId c = oid) (conversations st)")
  case None
  then show ?thesis using ok by (simp add: ownerConfirmDeal_def)
next
  case (Some c)
  note c = this
  show ?thesis
  proof (cases "find (\<lambda>p. prop_id p = conv_propertyId c) (properties st)")
    case None
    then show ?thesis using ok c by (simp add: ownerConfirmDeal_def)
  next
    case (Some pp)
    note pp = this
    let ?rent = "js_or r (rentAmount pp)"
    show ?thesis
    proof (cases "find (\<lambda>d. conversationId d = cid) (deals st)")
      case None
      note nd = this
      let ?d = "(new_deal newId c ?rent PENDING_TENANT)\<lparr>ownerConfirmed := True, ownerConfirmedAt := Some now\<rparr>"
      let ?m = "DealCreatedEmail (conv_tenantId c) (title pp) ?rent ''tenant''"
      show ?thesis
      proof (cases "deal_create st ?d")
        case None
        then show ?thesis using ok c pp nd by (simp add: ownerConfirmDeal_def)
      next
        case (Some a)
        then obtain st1 d' where cr: "deal_create st ?d = Some (st1, d')" by (cases a) auto
        have "flags_rows (deals st1) \<and> d' = ?d \<and> find (\<lambda>r. deal_id r = deal_id ?d) (deals st1) = Some ?d"
          by (rule flags_rows_create[OF ok cr]) (simp add: flags_ok_def new_deal_def)
        then have "flags_rows (deals (fst (confirm_finish (send_email st1 ?m) d' now)))"
          using confirm_finish_flags[of "send_email st1 ?m" d' now] by simp
        then show ?thesis using c pp cr nd by (simp add: ownerConfirmDeal_def)
      qed
    next
      case (Some d0)
      note d0 = this
      let ?f = "\<lambda>r. r\<lparr>ownerConfirmed := True, ownerConfirmedAt := Some now, agreedRent := ?rent,
                        status := (if tenantConfirmed d0 then COMPLETED else PENDING_TENANT)\<rparr>"
      let ?st1 = "st\<lparr>deals := map (\<lambda>r. if deal_id r = deal_id d0 then ?f r else r) (deals st)\<rparr>"
      from d0 have mem: "d0 \<in> set (deals st)" using find_in_set by fastforce
      from ok have dist: "distinct (map deal_id (deals st))" by (simp add: flags_rows_def)
      have fd: "find (\<lambda>r. deal_id r = deal_id d0) (deals st) = Some d0"
        by (rule find_by_id[OF dist mem])
      have st1: "flags_rows (deals ?st1)"
        using flags_rows_update[OF ok fd, of ?f] by (simp add: flags_ok_def)
      have fd1: "find (\<lambda>r. deal_id r = deal_id (?f d0)) (deals ?st1) = Some (?f d0)"
        using update_finds[OF fd, of ?f] by simp
      have "flags_rows (deals (fst (confirm_finish ?st1 (?f d0) now)))"
        by (rule confirm_finish_flags[OF st1 fd1])
      then show ?thesis using c pp d0 fd
        by (simp add: ownerConfirmDeal_def deal_update_def Let_def split del: if_split)
    qed
  qed
qed

lemma tenantConfirmDeal_flags:
  assumes ok: "flags_rows (deals st)"
  shows "flags_rows (deals (fst (tenantConfirmDeal st cid tid now newId)))"
proof (cases "find (\<lambda>c. conv_id c = cid \<and> conv_tenantId c = tid) (conversations st)")
  case None
  then show ?thesis using ok by (simp add: tenantConfirmDeal_def)
next
  case (Some c)
  note c = this
  show ?thesis
  proof (cases "find (\<lambda>p. prop_id p = conv_propertyId c) (properties st)")
    case None
    then show ?thesis using ok c by (simp add: tenantConfirmDeal_def)
  next
    case (Some pp)
    note pp = this
    show ?thesis
    proof (cases "find (\<lambda>d. conversationId d = cid) (deals st)")
      case None
      note nd = this
      let ?d = "(new_deal newId c (rentAmount pp) PENDING_OWNER)\<lparr>tenantConfirmed := True, tenantConfirmedAt := Some now\<rparr>"
      let ?m = "DealCreatedEmail (conv_ownerId c) (title pp) (rentAmount pp) ''owner''"
      show ?thesis
      proof (cases "deal_create st ?d")
        case None
        then show ?thesis using ok c pp nd by (simp add: tenantConfirmDeal_def)
      next
        case (Some a)
        then obtain st1 d' where cr: "deal_create st ?d = Some (st1, d')" by (cases a) auto
        have "flags_rows (deals st1) \<and> d' = ?d \<and> find (\<lambda>r. deal_id r = deal_id ?d) (deals st1) = Some ?d"
          by (rule flags_rows_create[OF ok cr]) (simp add: flags_ok_def new_deal_def)
        then have "flags_rows (deals (fst (confirm_finish (send_email st1 ?m) d' now)))"
          using confirm_finish_flags[of "send_email st1 ?m" d' now] by simp
        then show ?thesis using c pp cr nd by (simp add: tenantConfirmDeal_def)
      qed
    next
      case (Some d0)
      note d0 = this
      let ?f = "\<lambda>r. r\<lparr>tenantConfirmed := True, tenantConfirmedAt := Some now,
                        status := (if ownerConfirmed d0 then COMPLETED else PENDING_OWNER)\<rparr>"
      let ?st1 = "st\<lparr>deals := map (\<lambda>r. if deal_id r = deal_id d0 then ?f r else r) (deals st)\<rparr>"
      from d0 have mem: "d0 \<in> set (deals st)" using find_in_set by fastforce
      from ok have dist: "distinct (map deal_id (deals st))" by (simp add: flags_rows_def)
      have fd: "find (\<lambda>r. deal_id r = deal_id d0) (deals st) = Some d0"
        by (rule find_by_id[OF dist mem])
      have st1: "flags_rows (deals ?st1)"
        using flags_rows_update[OF ok fd, of ?f] by (simp add: flags_ok_def)
      have fd1: "find (\<lambda>r. deal_id r = deal_id (?f d0)) (deals ?st1) = Some (?f d0)"
        using update_finds[OF fd, of ?f] by simp
      have "flags_rows (deals (fst (confirm_finish ?st1 (?f d0) now)))"
        by (rule confirm_finish_flags[OF st1 fd1])
      then show ?thesis using c pp d0 fd
        by (simp add: tenantConfirmDeal_def deal_update_def split del: if_split)
    qed
  qed
qed

lemma cancelDeal_flags:
  assumes ok: "flags_rows (deals st)"
  shows "flags_rows (deals (fst (cancelDeal st i u)))"
proof (cases "find (\<lambda>d. deal_id d = i \<and> (ownerId d = u \<or> tenantId d = u) \<and> status d \<noteq> COMPLETED) (deals st)")
  case None
  then show ?thesis using ok by (simp add: cancelDeal_def)
next
  case (Some d)
  let ?f = "\<lambda>r. r\<lparr>status := CANCELLED\<rparr>"
  from find_in_set[OF Some] have mem: "d \<in> set (deals st)" and i: "i = deal_id d"
    and nc: "status d \<noteq> COMPLETED" by auto
  from ok have dist: "distinct (map deal_id (deals st))" by (simp add: flags_rows_def)
  have fd: "find (\<lambda>r. deal_id r = i) (deals st) = Some d"
    unfolding i by (rule find_by_id[OF dist mem])
  have old: "flags_ok d" using ok mem by (auto simp: flags_rows_def)
  have "flags_rows (map (\<lambda>r. if deal_id r = i then ?f r else r) (deals st))"
    by (rule flags_rows_update[OF ok fd]) (use old nc in \<open>auto simp: flags_ok_def\<close>)
  then show ?thesis using Some fd by (simp add: cancelDeal_def deal_update_def)
qed

lemma getOrCreateDeal_flags:
  assumes ok: "flags_rows (deals st)"
  shows "flags_rows (deals (fst (getOrCreateDeal st cid u r newId)))"
proof -
  have "flags_rows (deals st1)"
    if "deal_create st (new_deal newId c (js_or r (rentAmount pp)) PENDING_BOTH) = Some (st1, d')"
    for c pp st1 d'
    using flags_rows_create[OF ok that] by (simp add: flags_ok_def new_deal_def)
  then show ?thesis using ok
    by (auto simp: getOrCreateDeal_def split: option.splits)
qed

lemma deal_step_flags: "flags_rows (deals st) \<Longrightarrow> flags_rows (deals (deal_step st x))"
  by (cases x)
     (simp_all add: ownerConfirmDeal_flags tenantConfirmDeal_flags cancelDeal_flags
        getOrCreateDeal_flags)

lemma deal_run_flags: "flags_rows (deals st) \<Longrightarrow> flags_rows (deals (deal_run st xs))"
  by (induction xs arbitrary: st) (simp_all add: deal_step_flags)

lemma completeDeal_found:
  assumes fd: "find (\<lambda>r. deal_id r = i) (deals st) = Some d"
    and fp: "find (\<lambda>p. prop_id p = propertyId d) (properties st) = Some pp"
  shows "snd (completeDeal st i now) = Inr d \<and>
         deals (fst (completeDeal st i now)) =
           map (\<lambda>r. if deal_id r = i
                     then r\<lparr>status := COMPLETED, completedAt := Some now,
                            successFeeAmount := Some (calculateSuccessFee (agreedRent d))\<rparr>
                     else r) (deals st) \<and>
         getDealWithDetails (fst (completeDeal st i now)) i =
           Some (d\<lparr>status := COMPLETED, completedAt := Some now,
                   successFeeAmount := Some (calculateSuccessFee (agreedRent d))\<rparr>)"
proof -
  let ?f = "\<lambda>r. r\<lparr>status := COMPLETED, completedAt := Some now,
                    successFeeAmount := Some (calculateSuccessFee (agreedRent d))\<rparr>"
  have a: "snd (completeDeal st i now) = Inr d"
    and b: "deals (fst (completeDeal st i now)) =
      map (\<lambda>r. if deal_id r = i then ?f r else r) (deals st)"
    using fd fp
    by (simp_all add: completeDeal_def deal_update_def property_update_def send_email_def)
  have "getDealWithDetails (fst (completeDeal st i now)) i = Some (?f d)"
    unfolding getDealWithDetails_def b using update_finds[OF fd, of ?f] by simp
  with a b show ?thesis by blast
qed

section \<open>Properties of the deal service\<close>

text \<open>
  Claim C1. In a store whose deals have distinct identifiers and are COMPLETED exactly
  when both confirmation flags are set (a store without deals is one), after any
  sequence of owner confirmations, tenant confirmations, cancellations and get-or-create
  calls every deal has status COMPLETED if and only if both of its confirmation flags
  are set.
\<close>

theorem completed_iff_both_confirmed:
  assumes "distinct (map deal_id (deals st))"
    and "\<forall>d0\<in>set (deals st). (status d0 = COMPLETED) = (ownerConfirmed d0 \<and> tenantConfirmed d0)"
    and "d \<in> set (deals (deal_run st ops))"
  shows "(status d = COMPLETED) = (ownerConfirmed d \<and> tenantConfirmed d)"
proof -
  from assms(1,2) have "flags_rows (deals st)" by (simp add: flags_rows_def flags_ok_def)
  from deal_run_flags[OF this, of ops] assms(3) show ?thesis
    by (auto simp: flags_rows_def flags_ok_def)
qed

theorem completed_iff_both_confirmed_witness:
  "distinct (map deal_id (deals (demo_store\<lparr>deals := [listed_rent_deal]\<rparr>)))
   \<and> (status listed_rent_deal = COMPLETED) =
       (ownerConfirmed listed_rent_deal \<and> tenantConfirmed listed_rent_deal)
   \<and> deals (deal_run (demo_store\<lparr>deals := [listed_rent_deal]\<rparr>)
        [TenantConfirm conv1 tenant1 200 deal2]) =
       [listed_rent_deal\<lparr>tenantConfirmed := True, tenantConfirmedAt := Some 200,
          status := COMPLETED, successFeeAmount := Some 499, completedAt := Some 200\<rparr>]
   \<and> deals (deal_run demo_store
        [OwnerConfirm conv1 owner1 (Some 9000) 100 deal1, TenantConfirm conv1 tenant1 200 deal2]) =
       [completed_deal]
   \<and> status completed_deal = COMPLETED
   \<and> ownerConfirmed completed_deal \<and> tenantConfirmed completed_deal"
proof -
  let ?st = "demo_store\<lparr>deals := [listed_rent_deal]\<rparr>"
  let ?d = "listed_rent_deal\<lparr>tenantConfirmed := True, tenantConfirmedAt := Some 200,
          status := COMPLETED, successFeeAmount := Some 499, completedAt := Some 200\<rparr>"
  let ?ops = "[OwnerConfirm conv1 owner1 (Some 9000) 100 deal1, TenantConfirm conv1 tenant1 200 deal2]"
  note defs = demo_store_def completed_deal_def listed_rent_deal_def deal_service_defs
    demo_ids fee_table
  have h1: "distinct (map deal_id (deals ?st))" by simp
  have h2: "\<forall>d0\<in>set (deals ?st). (status d0 = COMPLETED) = (ownerConfirmed d0 \<and> tenantConfirmed d0)"
    by (simp add: listed_rent_deal_def)
  have r1: "deals (deal_run ?st [TenantConfirm conv1 tenant1 200 deal2]) = [?d]"
    by (simp add: defs)
  then have m1: "?d \<in> set (deals (deal_run ?st [TenantConfirm conv1 tenant1 200 deal2]))" by simp
  have e1: "distinct (map deal_id (deals demo_store))"
    and e2: "\<forall>d0\<in>set (deals demo_store). (status d0 = COMPLETED) = (ownerConfirmed d0 \<and> tenantConfirmed d0)"
    by (simp_all add: demo_store_def)
  have r2: "deals (deal_run demo_store ?ops) = [completed_deal]" by (simp add: defs)
  then have m2: "completed_deal \<in> set (deals (deal_run demo_store ?ops))" by simp
  have f: "ownerConfirmed completed_deal" "tenantConfirmed completed_deal"
    by (simp_all add: completed_deal_def)
  from completed_iff_both_confirmed[OF e1 e2 m2] f have c: "status completed_deal = COMPLETED"
    by simp
  from completed_iff_both_confirmed[OF h1 h2 m1] h1 h2 r1 r2 c f show ?thesis by simp
qed

text \<open>
  Claim C2. The success fee is the flat slab fee with strict upper bounds: 299 below
  10000, 499 from 10000 and below 25000, 999 from 25000 on; the boundary values are as
  listed. \<open>completeDeal\<close> succeeds for every deal that exists and whose property
  exists, and then the deal carries the slab fee of its agreed rent as
  \<open>successFeeAmount\<close>, together with status COMPLETED and the completion time;
  conversely, whenever \<open>completeDeal\<close> returns a deal, it is the deal it found and the
  stored fee is that slab fee.
\<close>

theorem success_fee_slabs:
  "calculateSuccessFee rent = (if rent < 10000 then 299 else if rent < 25000 then 499 else 999)
   \<and> calculateSuccessFee 9999 = 299
   \<and> calculateSuccessFee 10000 = 499
   \<and> calculateSuccessFee 24999 = 499
   \<and> calculateSuccessFee 25000 = 999
   \<and> calculateSuccessFee 1000000 = 999
   \<and> (find (\<lambda>r. deal_id r = j) (deals s) = Some d0 \<and>
       find (\<lambda>p. prop_id p = propertyId d0) (properties s) = Some pp \<longrightarrow>
        snd (completeDeal s j t) = Inr d0 \<and>
        getDealWithDetails (fst (completeDeal s j t)) j =
          Some (d0\<lparr>status := COMPLETED, completedAt := Some t,
                   successFeeAmount := Some (calculateSuccessFee (agreedRent d0))\<rparr>))
   \<and> (completeDeal st i now = (st', Inr d) \<longrightarrow>
        getDealWithDetails st i = Some d \<and>
        getDealWithDetails st' i =
          Some (d\<lparr>status := COMPLETED, completedAt := Some now,
                  successFeeAmount := Some (calculateSuccessFee (agreedRent d))\<rparr>))"
proof -
  have slabs: "calculateSuccessFee r = (if r < 10000 then 299 else if r < 25000 then 499 else 999)"
    for r
    by (simp add: calculateSuccessFee_def successFeeSlabs_def)
  have total: "snd (completeDeal s j t) = Inr d0 \<and>
        getDealWithDetails (fst (completeDeal s j t)) j =
          Some (d0\<lparr>status := COMPLETED, completedAt := Some t,
                   successFeeAmount := Some (calculateSuccessFee (agreedRent d0))\<rparr>)"
    if "find (\<lambda>r. deal_id r = j) (deals s) = Some d0"
      and "find (\<lambda>p. prop_id p = propertyId d0) (properties s) = Some pp"
    using completeDeal_found[OF that, of t] by blast
  have partial: "getDealWithDetails st i = Some d \<and>
        getDealWithDetails st' i =
          Some (d\<lparr>status := COMPLETED, completedAt := Some now,
                  successFeeAmount := Some (calculateSuccessFee (agreedRent d))\<rparr>)"
    if c: "completeDeal st i now = (st', Inr d)"
    using completeDeal_Inr[OF c] unfolding getDealWithDetails_def by blast
  from total partial show ?thesis by (simp add: slabs)
qed

theorem success_fee_slabs_witness:
  "find (\<lambda>r. deal_id r = deal1) (deals (demo_store\<lparr>deals := [confirmed_deal]\<rparr>)) =
     Some confirmed_deal
   \<and> successFeeAmount confirmed_deal = None
   \<and> agreedRent confirmed_deal = 12000
   \<and> (\<exists>pp. find (\<lambda>p. prop_id p = propertyId confirmed_deal)
              (properties (demo_store\<lparr>deals := [confirmed_deal]\<rparr>)) = Some pp)
   \<and> snd (completeDeal (demo_store\<lparr>deals := [confirmed_deal]\<rparr>) deal1 200) = Inr confirmed_deal
   \<and> getDealWithDetails (fst (completeDeal (demo_store\<lparr>deals := [confirmed_deal]\<rparr>) deal1 200))
        deal1 =
       Some (confirmed_deal\<lparr>completedAt := Some 200, successFeeAmount := Some 499\<rparr>)
   \<and> calculateSuccessFee 12000 = 499"
proof -
  let ?s = "demo_store\<lparr>deals := [confirmed_deal]\<rparr>"
  let ?pp = "\<lparr>prop_id = prop1, title = ''2BHK in Baner'', rentAmount = 12000,
              prop_status = ACTIVE\<rparr>"
  note defs = demo_store_def confirmed_deal_def listed_rent_deal_def demo_ids
  have fd: "find (\<lambda>r. deal_id r = deal1) (deals ?s) = Some confirmed_deal"
    by (simp add: defs)
  have fp: "find (\<lambda>p. prop_id p = propertyId confirmed_deal) (properties ?s) = Some ?pp"
    by (simp add: defs)
  have u: "successFeeAmount confirmed_deal = None" "agreedRent confirmed_deal = 12000"
    "status confirmed_deal = COMPLETED"
    by (simp_all add: confirmed_deal_def listed_rent_deal_def)
  note th = success_fee_slabs[where rent = 12000 and s = ?s and j = deal1 and ?d0.0 = confirmed_deal
      and pp = ?pp and t = 200]
  from th have a: "calculateSuccessFee 12000 = 499" by simp
  from th fd fp have b: "snd (completeDeal ?s deal1 200) = Inr confirmed_deal"
    and c: "getDealWithDetails (fst (completeDeal ?s deal1 200)) deal1 =
      Some (confirmed_deal\<lparr>status := COMPLETED, completedAt := Some 200,
          successFeeAmount := Some (calculateSuccessFee (agreedRent confirmed_deal))\<rparr>)"
    by blast+
  have e: "confirmed_deal\<lparr>status := COMPLETED, completedAt := Some 200,
          successFeeAmount := Some (calculateSuccessFee (agreedRent confirmed_deal))\<rparr> =
      confirmed_deal\<lparr>completedAt := Some 200, successFeeAmount := Some 499\<rparr>"
    by (simp add: a u(2,3))
  from fd fp u a b c[unfolded e] show ?thesis by blast
qed






text \<open>
  Claim C4, as stated, fails: CANCELLED is not terminal. A deal confirmed by the owner
  and then cancelled is moved to COMPLETED by the tenant's confirmation.
\<close>

theorem cancelled_not_terminal_counterexample:
  "map status (deals (deal_run demo_store
      [OwnerConfirm conv1 owner1 (Some 9000) 100 deal1, Cancel deal1 owner1])) = [CANCELLED]
   \<and> map status (deals (deal_run demo_store
      [OwnerConfirm conv1 owner1 (Some 9000) 100 deal1, Cancel deal1 owner1,
       TenantConfirm conv1 tenant1 300 deal2])) = [COMPLETED]"
  by (simp add: demo_store_def deal_service_defs demo_ids fee_table)

text \<open>
  Claim C4, amended. For a deal of a store whose deals have distinct identifiers:
  \<open>cancelDeal\<close> fails, changing nothing, when the deal is COMPLETED; called by the
  deal's owner or tenant it succeeds from every other status and leaves the deal
  CANCELLED; and no call of \<open>cancelDeal\<close> moves a deal out of CANCELLED. The
  confirmations do not look at the status: in any store, a successful
  \<open>ownerConfirmDeal\<close> returns the deal as PENDING_TENANT or COMPLETED and a successful
  \<open>tenantConfirmDeal\<close> as PENDING_OWNER or COMPLETED, whatever the status was,
  CANCELLED included.
\<close>

theorem cancel_and_confirm_on_status:
  assumes "distinct (map deal_id (deals st))" and "d \<in> set (deals st)"
  shows
    "(status d = COMPLETED \<longrightarrow>
        cancelDeal st (deal_id d) u =
          (st, Inl (Error ''Deal not found or cannot be cancelled'')))
     \<and> (status d \<noteq> COMPLETED \<and> (ownerId d = u \<or> tenantId d = u) \<longrightarrow>
        snd (cancelDeal st (deal_id d) u) = Inr ''Deal cancelled'' \<and>
        getDealWithDetails (fst (cancelDeal st (deal_id d) u)) (deal_id d) =
          Some (d\<lparr>status := CANCELLED\<rparr>))
     \<and> (status d = CANCELLED \<longrightarrow>
        getDealWithDetails (fst (cancelDeal st i u)) (deal_id d) = Some d)
     \<and> (ownerConfirmDeal s cid oid r now newId = (s1, Inr res1) \<longrightarrow>
        (\<exists>d1. res1 = Some d1 \<and> getDealWithDetails s1 (deal_id d1) = Some d1 \<and>
           (status d1 = PENDING_TENANT \<or> status d1 = COMPLETED)))
     \<and> (tenantConfirmDeal s cid tid now newId = (s2, Inr res2) \<longrightarrow>
        (\<exists>d2. res2 = Some d2 \<and> getDealWithDetails s2 (deal_id d2) = Some d2 \<and>
           (status d2 = PENDING_OWNER \<or> status d2 = COMPLETED)))"
proof (intro conjI impI)
  note dist = assms(1) and mem = assms(2)
  {
    assume "status d = COMPLETED"
    then show "cancelDeal st (deal_id d) u =
          (st, Inl (Error ''Deal not found or cannot be cancelled''))"
      by (rule cancelDeal_completed[OF dist mem])
  next
    assume a: "status d \<noteq> COMPLETED \<and> (ownerId d = u \<or> tenantId d = u)"
    with cancelDeal_pending[OF dist mem, of u]
    show "snd (cancelDeal st (deal_id d) u) = Inr ''Deal cancelled''"
      and "getDealWithDetails (fst (cancelDeal st (deal_id d) u)) (deal_id d) =
          Some (d\<lparr>status := CANCELLED\<rparr>)"
      by blast+
  next
    assume "status d = CANCELLED"
    then show "getDealWithDetails (fst (cancelDeal st i u)) (deal_id d) = Some d"
      by (rule cancelDeal_keeps_cancelled[OF dist mem])
  next
    assume "ownerConfirmDeal s cid oid r now newId = (s1, Inr res1)"
    from ownerConfirmDeal_Inr[OF this]
    show "\<exists>d1. res1 = Some d1 \<and> getDealWithDetails s1 (deal_id d1) = Some d1 \<and>
           (status d1 = PENDING_TENANT \<or> status d1 = COMPLETED)"
      by blast
  next
    assume "tenantConfirmDeal s cid tid now newId = (s2, Inr res2)"
    from tenantConfirmDeal_Inr[OF this]
    show "\<exists>d2. res2 = Some d2 \<and> getDealWithDetails s2 (deal_id d2) = Some d2 \<and>
           (status d2 = PENDING_OWNER \<or> status d2 = COMPLETED)"
      by blast
  }
qed

theorem cancel_and_confirm_on_status_witness:
  "distinct (map deal_id [completed_deal])
   \<and> status completed_deal = COMPLETED
   \<and> cancelDeal completed_store deal1 owner1 =
       (completed_store, Inl (Error ''Deal not found or cannot be cancelled''))
   \<and> status listed_rent_deal = PENDING_TENANT
   \<and> ownerId listed_rent_deal = owner1
   \<and> cancelDeal (demo_store\<lparr>deals := [listed_rent_deal]\<rparr>) deal1 owner1 =
       (demo_store\<lparr>deals := [listed_rent_deal\<lparr>status := CANCELLED\<rparr>]\<rparr>, Inr ''Deal cancelled'')
   \<and> cancelDeal (demo_store\<lparr>deals := [listed_rent_deal\<lparr>status := CANCELLED\<rparr>]\<rparr>) deal1 tenant1 =
       (demo_store\<lparr>deals := [listed_rent_deal\<lparr>status := CANCELLED\<rparr>]\<rparr>, Inr ''Deal cancelled'')
   \<and> snd (tenantConfirmDeal (demo_store\<lparr>deals := [listed_rent_deal\<lparr>status := CANCELLED\<rparr>]\<rparr>)
        conv1 tenant1 300 deal2) =
       Inr (Some (listed_rent_deal\<lparr>tenantConfirmed := True, tenantConfirmedAt := Some 300,
          status := COMPLETED, successFeeAmount := Some 499, completedAt := Some 300\<rparr>))
   \<and> snd (ownerConfirmDeal (demo_store\<lparr>deals := [listed_rent_deal\<lparr>status := CANCELLED\<rparr>]\<rparr>)
        conv1 owner1 None 300 deal2) =
       Inr (Some (listed_rent_deal\<lparr>ownerConfirmedAt := Some 300\<rparr>))"
proof -
  let ?P = "demo_store\<lparr>deals := [listed_rent_deal]\<rparr>"
  let ?c = "listed_rent_deal\<lparr>status := CANCELLED\<rparr>"
  let ?C = "demo_store\<lparr>deals := [?c]\<rparr>"
  let ?t = "listed_rent_deal\<lparr>tenantConfirmed := True, tenantConfirmedAt := Some 300,
          status := COMPLETED, successFeeAmount := Some 499, completedAt := Some 300\<rparr>"
  let ?o = "listed_rent_deal\<lparr>ownerConfirmedAt := Some 300\<rparr>"
  note defs = demo_store_def completed_store_def completed_deal_def listed_rent_deal_def
    deal_service_defs demo_ids fee_table
  have d1: "distinct (map deal_id (deals completed_store))" "completed_deal \<in> set (deals completed_store)"
    "deal_id completed_deal = deal1" "status completed_deal = COMPLETED"
    by (simp_all add: completed_store_def completed_deal_def)
  have d2: "distinct (map deal_id (deals ?P))" "listed_rent_deal \<in> set (deals ?P)"
    "deal_id listed_rent_deal = deal1" "status listed_rent_deal = PENDING_TENANT"
    "ownerId listed_rent_deal = owner1"
    by (simp_all add: listed_rent_deal_def)
  have d3: "distinct (map deal_id (deals ?C))" "?c \<in> set (deals ?C)"
    "deal_id ?c = deal1" "status ?c = CANCELLED"
    by (simp_all add: listed_rent_deal_def)
  have c1: "cancelDeal completed_store deal1 owner1 =
      (completed_store, Inl (Error ''Deal not found or cannot be cancelled''))"
    using cancel_and_confirm_on_status[OF d1(1,2), where u = owner1] d1(3,4) by simp
  have "snd (cancelDeal ?P deal1 owner1) = Inr ''Deal cancelled''"
    using cancel_and_confirm_on_status[OF d2(1,2), where u = owner1] d2(3,4,5) by simp
  moreover have "fst (cancelDeal ?P deal1 owner1) = ?C" by (simp add: defs)
  ultimately have c2: "cancelDeal ?P deal1 owner1 = (?C, Inr ''Deal cancelled'')"
    by (simp add: prod_eq_iff)
  have "getDealWithDetails (fst (cancelDeal ?C deal1 tenant1)) deal1 = Some ?c"
    using cancel_and_confirm_on_status[OF d3(1,2), where i = deal1 and u = tenant1] d3(3,4)
    by simp
  have c3: "cancelDeal ?C deal1 tenant1 = (?C, Inr ''Deal cancelled'')" by (simp add: defs)
  have t: "snd (tenantConfirmDeal ?C conv1 tenant1 300 deal2) = Inr (Some ?t)"
    by (simp add: defs)
  have o: "snd (ownerConfirmDeal ?C conv1 owner1 None 300 deal2) = Inr (Some ?o)"
    by (simp add: defs)
  from d1(4) c1 d2(4,5) c2 c3 t o show ?thesis by simp
qed

section \<open>The payment table under the service's operations\<close>

lemma payment_update_mem:
  assumes "p \<in> set (payments st)"
  shows "\<exists>p'. payment_update st (pay_id p) f =
           Some (st\<lparr>payments := map (\<lambda>r. if pay_id r = pay_id p then f r else r) (payments st)\<rparr>,
                 f p')"
proof (cases "find (\<lambda>r. pay_id r = pay_id p) (payments st)")
  case None
  with assms show ?thesis by (auto simp: find_None_iff)
next
  case (Some a)
  then show ?thesis by (auto simp: payment_update_def)
qed

lemma payment_update_rows:
  assumes "payment_update st i f = Some (st1, p1)"
  shows "payments st1 = map (\<lambda>r. if pay_id r = i then f r else r) (payments st)"
  using assms by (auto simp: payment_update_def split: option.splits)

lemma deal_update_payments:
  assumes "deal_update st i f = Some (st1, d1)"
  shows "payments st1 = payments st"
  using assms by (auto simp: deal_update_def split: option.splits)

text \<open>No row of \<open>ps1\<close> is REFUNDED unless it is a row of \<open>ps\<close>.\<close>

definition no_new_refund :: "payment list \<Rightarrow> payment list \<Rightarrow> bool" where
  "no_new_refund ps ps1 \<longleftrightarrow> (\<forall>q\<in>set ps1. pay_status q = PAY_REFUNDED \<longrightarrow> q \<in> set ps)"

lemma no_new_refund_same [simp]: "no_new_refund ps ps"
  by (simp add: no_new_refund_def)

lemma no_new_refund_map:
  assumes "\<And>r. pay_status (f r) \<noteq> PAY_REFUNDED"
  shows "no_new_refund ps (map (\<lambda>r. if pay_id r = i then f r else r) ps)"
  using assms by (auto simp: no_new_refund_def)

lemma log_create_payments [simp]: "payments (log_create st a b c d e f) = payments st"
  by (simp add: log_create_def)

lemma verifyPayment_no_refund:
  "no_new_refund (payments st) (payments (fst (verifyPayment gw st dto now)))"
  by (auto simp: verifyPayment_def Let_def no_new_refund_map split: option.splits
           dest!: deal_update_payments payment_update_rows)

lemma handlePaymentAuthorized_no_refund:
  "no_new_refund (payments st) (payments (fst (handlePaymentAuthorized st d now)))"
  by (auto simp: handlePaymentAuthorized_def split: option.splits)

lemma handlePaymentCompleted_no_refund:
  "no_new_refund (payments st) (payments (fst (handlePaymentCompleted st d now)))"
  by (auto simp: handlePaymentCompleted_def no_new_refund_map split: option.splits
           dest!: deal_update_payments payment_update_rows)

lemma handlePaymentFailed_no_refund:
  "no_new_refund (payments st) (payments (fst (handlePaymentFailed st d now)))"
  by (auto simp: handlePaymentFailed_def no_new_refund_map split: option.splits
           dest!: payment_update_rows)

lemma createPaymentOrder_no_refund:
  "no_new_refund (payments st) (payments (fst (createPaymentOrder gw st dto now newId)))"
proof -
  have "no_new_refund ps (ps @ [new_payment newId dto x])" for ps x
    by (simp add: no_new_refund_def new_payment_def)
  then show ?thesis
    by (auto simp: createPaymentOrder_def Let_def no_new_refund_map
             split: option.splits sum.splits if_splits
             dest!: payment_update_rows)
qed

lemma refundPayment_payments:
  "payments (fst (refundPayment gw st i reason now)) = payments st"
  by (auto simp: refundPayment_def split: option.splits sum.splits if_splits)

lemma payment_step_no_refund:
  assumes "\<And>d s now. x = Webhook d s now \<Longrightarrow> wh_event d \<noteq> ''refund.completed''"
  shows "no_new_refund (payments st) (payments (payment_step gw st x))"
proof (cases x)
  case (CreateOrder dto now newId)
  then show ?thesis by (simp add: createPaymentOrder_no_refund)
next
  case (Verify dto now)
  then show ?thesis by (simp add: verifyPayment_no_refund)
next
  case (Webhook d s now)
  with assms have "wh_event d \<noteq> ''refund.completed''" by simp
  with Webhook show ?thesis
    by (simp add: handleWebhook_def Let_def handlePaymentAuthorized_no_refund
        handlePaymentCompleted_no_refund handlePaymentFailed_no_refund)
next
  case (Refund i reason now)
  then show ?thesis by (simp add: refundPayment_payments)
next
  case (GetDetails i)
  then show ?thesis by (simp add: getPaymentDetails_def split: option.splits)
qed

lemma handleRefundCompleted_found:
  assumes "wh_refund d = Some re"
    and "find (\<lambda>p. razorpayPaymentId p = Some (re_payment_id re)) (payments st) = Some p"
  shows "handleRefundCompleted st d now =
           (log_create
              (st\<lparr>payments := map (\<lambda>r. if pay_id r = pay_id p
                                       then r\<lparr>pay_status := PAY_REFUNDED, refundedAt := Some now\<rparr>
                                       else r) (payments st)\<rparr>)
              (pay_id p) ''REFUND_COMPLETED'' ''SUCCESS'' (Some (RefundData re)) None now,
            Inr ())"
proof -
  from find_in_set[OF assms(2)] have "p \<in> set (payments st)" by simp
  from payment_update_mem[OF this, of "\<lambda>r. r\<lparr>pay_status := PAY_REFUNDED, refundedAt := Some now\<rparr>"]
  obtain p' where "payment_update st (pay_id p)
      (\<lambda>r. r\<lparr>pay_status := PAY_REFUNDED, refundedAt := Some now\<rparr>) =
    Some (st\<lparr>payments := map (\<lambda>r. if pay_id r = pay_id p
                                       then r\<lparr>pay_status := PAY_REFUNDED, refundedAt := Some now\<rparr>
                                       else r) (payments st)\<rparr>, p')"
    by blast
  with assms show ?thesis
    by (simp add: handleRefundCompleted_def)
qed

lemma payment_update_distinct:
  assumes "distinct (map pay_id (payments st))" and "p \<in> set (payments st)"
  shows "payment_update st (pay_id p) f =
           Some (st\<lparr>payments := map (\<lambda>r. if pay_id r = pay_id p then f r else r) (payments st)\<rparr>,
                 f p)"
proof -
  have "find (\<lambda>r. pay_id r = pay_id p) ps = Some p" if "distinct (map pay_id ps)" "p \<in> set ps" for ps
    using that by (induction ps) auto
  from this[OF assms] show ?thesis by (simp add: payment_update_def)
qed

lemma orderBy_createdAt_desc_sorted:
  "sorted_wrt (\<lambda>a b. createdAt b \<le> createdAt a) (orderBy_createdAt_desc ls)"
proof -
  have "sorted (map createdAt (sort_key createdAt ls))" by (rule sorted_sort_key)
  then have "sorted_wrt (\<lambda>a b. createdAt a \<le> createdAt b) (sort_key createdAt ls)"
    by (simp add: sorted_map)
  then show ?thesis
    by (simp add: orderBy_createdAt_desc_def sorted_wrt_rev)
qed

lemma orderBy_createdAt_desc_mset: "mset (orderBy_createdAt_desc ls) = mset ls"
  by (simp add: orderBy_createdAt_desc_def)

section \<open>Properties of the payment service\<close>




text \<open>
  Claim C6. \<open>refundPayment\<close> fails without a payment for the deal, without a gateway
  payment id, and when the status is not COMPLETED. When it succeeds the payment was
  COMPLETED, the gateway's refund call returned the refund, the store differs from the
  one before by the appended log row (REFUND_INITIATED, SUCCESS) only, and the payment
  rows, their status included, are unchanged. The handler of \<open>refund.completed\<close> sets
  the payment it finds to REFUNDED, and no other call of the payment service produces a
  REFUNDED row.
\<close>

theorem refundPayment_contract:
  "(find (\<lambda>p. dealId p = i) (payments st) = None \<longrightarrow>
      refundPayment gw st i reason now = (st, Inl (Error ''Payment not found'')))
   \<and> (find (\<lambda>p. dealId p = i) (payments st) = Some p \<and> razorpayPaymentId p = None \<longrightarrow>
      refundPayment gw st i reason now = (st, Inl (Error ''No Razorpay payment to refund'')))
   \<and> (find (\<lambda>p. dealId p = i) (payments st) = Some p \<and> pay_status p \<noteq> PAY_COMPLETED \<longrightarrow>
      refundPayment gw st i reason now = (st, Inl (Error ''No Razorpay payment to refund'')) \<or>
      refundPayment gw st i reason now = (st, Inl (Error ''Can only refund completed payments'')))
   \<and> (refundPayment gw st i reason now = (st1, Inr refund) \<longrightarrow>
      (\<exists>p0 pid. find (\<lambda>p. dealId p = i) (payments st) = Some p0 \<and>
         razorpayPaymentId p0 = Some pid \<and> pay_status p0 = PAY_COMPLETED \<and>
         payments_refund gw pid (amount p0) i (or_default reason ''Manual refund'') = Inr refund \<and>
         st1 = st\<lparr>paymentLogs := paymentLogs st @
                 [\<lparr>log_paymentId = pay_id p0, event = ''REFUND_INITIATED'',
                   log_status = ''SUCCESS'', razorpayData = Some (RefundData refund),
                   errorMessage = None, createdAt = now\<rparr>]\<rparr> \<and>
         payments st1 = payments st))
   \<and> (wh_refund d = Some re \<and>
       find (\<lambda>p. razorpayPaymentId p = Some (re_payment_id re)) (payments st) = Some p2 \<longrightarrow>
      snd (handleRefundCompleted st d now) = Inr () \<and>
      payments (fst (handleRefundCompleted st d now)) =
        map (\<lambda>r. if pay_id r = pay_id p2
                  then r\<lparr>pay_status := PAY_REFUNDED, refundedAt := Some now\<rparr> else r)
          (payments st))
   \<and> (q \<in> set (payments (payment_step gw st x)) \<and> pay_status q = PAY_REFUNDED \<and>
       q \<notin> set (payments st) \<longrightarrow>
      (\<exists>dat s t. x = Webhook dat s t \<and> wh_event dat = ''refund.completed''))"
proof (intro conjI impI)
  assume "find (\<lambda>p. dealId p = i) (payments st) = None"
  then show "refundPayment gw st i reason now = (st, Inl (Error ''Payment not found''))"
    by (simp add: refundPayment_def)
next
  assume "find (\<lambda>p. dealId p = i) (payments st) = Some p \<and> razorpayPaymentId p = None"
  then show "refundPayment gw st i reason now = (st, Inl (Error ''No Razorpay payment to refund''))"
    by (simp add: refundPayment_def)
next
  assume "find (\<lambda>p. dealId p = i) (payments st) = Some p \<and> pay_status p \<noteq> PAY_COMPLETED"
  then show "refundPayment gw st i reason now = (st, Inl (Error ''No Razorpay payment to refund'')) \<or>
      refundPayment gw st i reason now = (st, Inl (Error ''Can only refund completed payments''))"
    by (auto simp: refundPayment_def split: option.splits)
next
  assume "refundPayment gw st i reason now = (st1, Inr refund)"
  then show "\<exists>p0 pid. find (\<lambda>p. dealId p = i) (payments st) = Some p0 \<and>
         razorpayPaymentId p0 = Some pid \<and> pay_status p0 = PAY_COMPLETED \<and>
         payments_refund gw pid (amount p0) i (or_default reason ''Manual refund'') = Inr refund \<and>
         st1 = st\<lparr>paymentLogs := paymentLogs st @
                 [\<lparr>log_paymentId = pay_id p0, event = ''REFUND_INITIATED'',
                   log_status = ''SUCCESS'', razorpayData = Some (RefundData refund),
                   errorMessage = None, createdAt = now\<rparr>]\<rparr> \<and>
         payments st1 = payments st"
    by (auto simp: refundPayment_def log_create_def split: option.splits if_splits sum.splits)
next
  assume a: "wh_refund d = Some re \<and>
       find (\<lambda>p. razorpayPaymentId p = Some (re_payment_id re)) (payments st) = Some p2"
  then have "handleRefundCompleted st d now =
           (log_create
              (st\<lparr>payments := map (\<lambda>r. if pay_id r = pay_id p2
                                       then r\<lparr>pay_status := PAY_REFUNDED, refundedAt := Some now\<rparr>
                                       else r) (payments st)\<rparr>)
              (pay_id p2) ''REFUND_COMPLETED'' ''SUCCESS'' (Some (RefundData re)) None now,
            Inr ())"
    using handleRefundCompleted_found by blast
  then show "snd (handleRefundCompleted st d now) = Inr ()"
    and "payments (fst (handleRefundCompleted st d now)) =
        map (\<lambda>r. if pay_id r = pay_id p2
                  then r\<lparr>pay_status := PAY_REFUNDED, refundedAt := Some now\<rparr> else r)
          (payments st)"
    by simp_all
next
  assume a: "q \<in> set (payments (payment_step gw st x)) \<and> pay_status q = PAY_REFUNDED \<and>
       q \<notin> set (payments st)"
  show "\<exists>dat s t. x = Webhook dat s t \<and> wh_event dat = ''refund.completed''"
  proof (rule ccontr)
    assume "\<not> ?thesis"
    then have "\<And>dat s t. x = Webhook dat s t \<Longrightarrow> wh_event dat \<noteq> ''refund.completed''" by blast
    from payment_step_no_refund[OF this, where st = st and gw = gw] a show False
      by (auto simp: no_new_refund_def)
  qed
qed

theorem refundPayment_contract_witness:
  "refundPayment demo_gateway completed_store deal1 None 700 =
     (completed_store, Inl (Error ''Payment not found''))
   \<and> razorpayPaymentId initiated_payment = None
   \<and> refundPayment demo_gateway initiated_store deal1 None 700 =
     (initiated_store, Inl (Error ''No Razorpay payment to refund''))
   \<and> refundPayment demo_gateway
       (paid_store\<lparr>payments := [paid_payment\<lparr>pay_status := PAY_FAILED\<rparr>]\<rparr>) deal1 None 700 =
     (paid_store\<lparr>payments := [paid_payment\<lparr>pay_status := PAY_FAILED\<rparr>]\<rparr>,
      Inl (Error ''Can only refund completed payments''))
   \<and> snd (refundPayment demo_gateway paid_store deal1 None 700) =
       Inr \<lparr>re_id = ''rfnd_1'', re_payment_id = ''pay_1''\<rparr>
   \<and> payments (fst (refundPayment demo_gateway paid_store deal1 None 700)) = [paid_payment]
   \<and> pay_status paid_payment = PAY_COMPLETED
   \<and> map event (paymentLogs (fst (refundPayment demo_gateway paid_store deal1 None 700))) =
       [''PAYMENT_INITIATED'', ''PAYMENT_COMPLETED'', ''REFUND_INITIATED'']
   \<and> payments (fst (handleRefundCompleted paid_store refund_event 800)) =
       [paid_payment\<lparr>pay_status := PAY_REFUNDED, refundedAt := Some 800\<rparr>]
   \<and> paid_payment\<lparr>pay_status := PAY_REFUNDED, refundedAt := Some 800\<rparr> \<in>
       set (payments (payment_step demo_gateway paid_store
              (Webhook refund_event ''mac(webhook-secret,refund.completed)'' 800)))"
proof -
  let ?gw = demo_gateway
  let ?failed = "paid_store\<lparr>payments := [paid_payment\<lparr>pay_status := PAY_FAILED\<rparr>]\<rparr>"
  let ?refund = "\<lparr>re_id = ''rfnd_1'', re_payment_id = ''pay_1''\<rparr>"
  let ?q = "paid_payment\<lparr>pay_status := PAY_REFUNDED, refundedAt := Some 800\<rparr>"
  let ?x = "Webhook refund_event ''mac(webhook-secret,refund.completed)'' 800"
  let ?st1 = "fst (refundPayment demo_gateway paid_store deal1 None 700)"
  note defs = payment_service_defs payment_demo_defs refund_event_def
  have f0: "find (\<lambda>p. dealId p = deal1) (payments completed_store) = None"
    by (simp add: defs)
  have f1: "find (\<lambda>p. dealId p = deal1) (payments initiated_store) = Some initiated_payment \<and>
      razorpayPaymentId initiated_payment = None"
    by (simp add: defs)
  have f2: "find (\<lambda>p. dealId p = deal1) (payments ?failed) =
      Some (paid_payment\<lparr>pay_status := PAY_FAILED\<rparr>) \<and>
      pay_status (paid_payment\<lparr>pay_status := PAY_FAILED\<rparr>) \<noteq> PAY_COMPLETED"
    by (simp add: defs)
  have n2: "refundPayment ?gw ?failed deal1 None 700 \<noteq>
      (?failed, Inl (Error ''No Razorpay payment to refund''))"
    by (simp add: defs)
  have s3: "snd (refundPayment ?gw paid_store deal1 None 700) = Inr ?refund"
    by (simp add: defs)
  then have e3: "refundPayment ?gw paid_store deal1 None 700 = (?st1, Inr ?refund)"
    by (simp add: prod_eq_iff)
  have f4: "wh_refund refund_event = Some ?refund \<and>
      find (\<lambda>p. razorpayPaymentId p = Some (re_payment_id ?refund)) (payments paid_store) =
        Some paid_payment"
    by (simp add: defs)
  have p4: "payments paid_store = [paid_payment]" "pay_id paid_payment = pay1"
    "pay_status paid_payment = PAY_COMPLETED"
    "map event (paymentLogs paid_store) = [''PAYMENT_INITIATED'', ''PAYMENT_COMPLETED'']"
    by (simp_all add: defs)
  have m5: "?q \<in> set (payments (payment_step ?gw paid_store ?x))"
    by (simp add: defs)
  have a: "refundPayment ?gw completed_store deal1 None 700 =
      (completed_store, Inl (Error ''Payment not found''))"
    using refundPayment_contract[of deal1 completed_store ?gw None 700] f0 by blast
  have b: "refundPayment ?gw initiated_store deal1 None 700 =
      (initiated_store, Inl (Error ''No Razorpay payment to refund''))"
    using refundPayment_contract[of deal1 initiated_store ?gw None 700 initiated_payment] f1
    by blast
  have c: "refundPayment ?gw ?failed deal1 None 700 =
      (?failed, Inl (Error ''Can only refund completed payments''))"
    using refundPayment_contract[of deal1 ?failed ?gw None 700
        "paid_payment\<lparr>pay_status := PAY_FAILED\<rparr>"] f2 n2
    by blast
  from refundPayment_contract[of deal1 paid_store ?gw None 700 _ ?st1 ?refund] e3
  obtain p0 where "find (\<lambda>p. dealId p = deal1) (payments paid_store) = Some p0"
    and st1: "?st1 = paid_store\<lparr>paymentLogs := paymentLogs paid_store @
                 [\<lparr>log_paymentId = pay_id p0, event = ''REFUND_INITIATED'',
                   log_status = ''SUCCESS'', razorpayData = Some (RefundData ?refund),
                   errorMessage = None, createdAt = 700\<rparr>]\<rparr>"
    by blast
  from st1 have d: "payments ?st1 = [paid_payment]"
    and e: "map event (paymentLogs ?st1) =
       [''PAYMENT_INITIATED'', ''PAYMENT_COMPLETED'', ''REFUND_INITIATED'']"
    by (simp_all add: p4)
  from refundPayment_contract[where st = paid_store and d = refund_event and re = ?refund
      and ?p2.0 = paid_payment and now = 800] f4
  have "payments (fst (handleRefundCompleted paid_store refund_event 800)) =
      map (\<lambda>r. if pay_id r = pay_id paid_payment
                then r\<lparr>pay_status := PAY_REFUNDED, refundedAt := Some 800\<rparr> else r)
        (payments paid_store)"
    by blast
  then have g: "payments (fst (handleRefundCompleted paid_store refund_event 800)) = [?q]"
    by (simp add: p4)
  from a f1 b c s3 d p4(3) e g m5 show ?thesis by simp
qed

text \<open>
  Claim C7. The webhook endpoint answers every delivery with status 200 and success,
  whatever the payload and the signature header; and when the header is missing or is
  not the HMAC of the serialised body under the webhook secret, the store is left as it
  was.
\<close>

theorem webhook_always_acknowledged:
  "res_status (snd (PaymentController_handleWebhook gw st signature body now)) = 200
   \<and> res_success (snd (PaymentController_handleWebhook gw st signature body now))
   \<and> (signature \<noteq> Some (hmac_sha256_hex gw (webhookSecret gw) (stringify gw body)) \<longrightarrow>
        fst (PaymentController_handleWebhook gw st signature body now) = st \<and>
        res_message (snd (PaymentController_handleWebhook gw st signature body now)) =
          ''Webhook received'')"
  by (auto simp: PaymentController_handleWebhook_def handleWebhook_def sendSuccess_def Let_def
           split: option.splits prod.splits sum.splits)

theorem webhook_always_acknowledged_witness:
  "Some ''forged'' \<noteq> Some (hmac_sha256_hex demo_gateway (webhookSecret demo_gateway)
      (stringify demo_gateway \<lparr>wh_event = ''payment.failed'',
          wh_payment = Some \<lparr>pe_id = ''pay_1'', pe_order_id = ''order_1'', pe_amount = 29900,
                            pe_method = ''upi''\<rparr>, wh_refund = None\<rparr>))
   \<and> PaymentController_handleWebhook demo_gateway initiated_store (Some ''forged'')
        \<lparr>wh_event = ''payment.failed'',
          wh_payment = Some \<lparr>pe_id = ''pay_1'', pe_order_id = ''order_1'', pe_amount = 29900,
                            pe_method = ''upi''\<rparr>, wh_refund = None\<rparr> 600 =
       (initiated_store, sendSuccess NoData ''Webhook received'')
   \<and> res_status (sendSuccess NoData ''Webhook received'') = 200"
proof -
  let ?body = "\<lparr>wh_event = ''payment.failed'',
          wh_payment = Some \<lparr>pe_id = ''pay_1'', pe_order_id = ''order_1'', pe_amount = 29900,
                            pe_method = ''upi''\<rparr>, wh_refund = None\<rparr>"
  let ?r = "PaymentController_handleWebhook demo_gateway initiated_store (Some ''forged'') ?body 600"
  have s: "Some ''forged'' \<noteq> Some (hmac_sha256_hex demo_gateway (webhookSecret demo_gateway)
      (stringify demo_gateway ?body))"
    by (simp add: demo_gateway_def)
  from webhook_always_acknowledged[of demo_gateway initiated_store "Some ''forged''" ?body 600] s
  have a: "res_status (snd ?r) = 200" and b: "fst ?r = initiated_store" by blast+
  have c: "snd ?r = sendSuccess NoData ''Webhook received''"
    by (simp add: PaymentController_handleWebhook_def handleWebhook_def demo_gateway_def)
  from a b c s show ?thesis by (simp add: prod_eq_iff)
qed

text \<open>
  Claim C8, as stated, fails: a further completion of a COMPLETED payment is not a no-op.
  A second \<open>verifyPayment\<close> with a valid signature, and likewise a
  \<open>payment.completed\<close> webhook, succeeds but writes the payment again (a new completion
  time), repeats the deal update and appends another (PAYMENT_COMPLETED, SUCCESS) log
  row; the store after the call is not the store before.
\<close>

theorem completed_payment_not_noop_counterexample:
  "payments paid_store = [paid_payment] \<and> pay_status paid_payment = PAY_COMPLETED
   \<and> verifyPayment demo_gateway paid_store good_dto 900 =
       (paid_store\<lparr>payments := [paid_payment\<lparr>pay_completedAt := Some 900\<rparr>],
                   paymentLogs := [initiated_log, paid_log, paid_log\<lparr>createdAt := 900\<rparr>]\<rparr>,
        Inr (paid_payment\<lparr>pay_completedAt := Some 900\<rparr>))
   \<and> fst (verifyPayment demo_gateway paid_store good_dto 900) \<noteq> paid_store
   \<and> handleWebhook demo_gateway paid_store completed_event
        ''mac(webhook-secret,payment.completed)'' 900 =
       (paid_store\<lparr>payments := [paid_payment\<lparr>pay_method := Some UPI,
                                     pay_completedAt := Some 900\<rparr>],
                   paymentLogs := [initiated_log, paid_log,
                     \<lparr>log_paymentId = pay1, event = ''PAYMENT_COMPLETED'',
                      log_status = ''SUCCESS'',
                      razorpayData = Some (PaymentData \<lparr>pe_id = ''pay_1'',
                        pe_order_id = ''order_1'', pe_amount = 29900, pe_method = ''upi''\<rparr>),
                      errorMessage = None, createdAt = 900\<rparr>]\<rparr>,
        Inr ())
   \<and> fst (handleWebhook demo_gateway paid_store completed_event
        ''mac(webhook-secret,payment.completed)'' 900) \<noteq> paid_store"
  by (simp add: payment_service_defs payment_demo_defs completed_event_def
      mapPaymentMethod_def methodMap_def payment_method_of_def)

text \<open>
  Claim C8, amended. For a payment already COMPLETED whose deal exists, a further
  \<open>verifyPayment\<close> (same order id, valid signature) and a further \<open>payment.completed\<close>
  webhook (valid signature, a method of the enum) are not errors, leave the payment
  COMPLETED and the deal PAID, and send no notification; but neither is a no-op: each
  writes the payment row again, with a new completion time, repeats the update of the
  deal, and appends one more (PAYMENT_COMPLETED, SUCCESS) log row.
\<close>

theorem repeated_completion_effects:
  "(distinct (map pay_id (payments st)) \<and>
    find (\<lambda>p. dealId p = v_dealId dto) (payments st) = Some p \<and>
    pay_status p = PAY_COMPLETED \<and>
    razorpayOrderId p = v_razorpayOrderId dto \<and>
    v_razorpaySignature dto =
      hmac_sha256_hex gw (keySecret gw) (v_razorpayOrderId dto @ ''|'' @ v_razorpayPaymentId dto) \<and>
    find (\<lambda>d. deal_id d = v_dealId dto) (deals st) = Some d \<longrightarrow>
      verifyPayment gw st dto now =
        (st\<lparr>payments := map (\<lambda>r. if pay_id r = pay_id p
                 then r\<lparr>razorpayPaymentId := Some (v_razorpayPaymentId dto),
                        razorpaySignature := Some (v_razorpaySignature dto),
                        pay_status := PAY_COMPLETED, pay_completedAt := Some now\<rparr>
                 else r) (payments st),
             deals := map (\<lambda>r. if deal_id r = v_dealId dto
                 then r\<lparr>paymentStatus := PAID, paymentId := Some (v_razorpayPaymentId dto)\<rparr>
                 else r) (deals st),
             paymentLogs := paymentLogs st @
                 [\<lparr>log_paymentId = pay_id p, event = ''PAYMENT_COMPLETED'',
                   log_status = ''SUCCESS'',
                   razorpayData = Some (VerifiedIds (v_razorpayOrderId dto) (v_razorpayPaymentId dto)),
                   errorMessage = None, createdAt = now\<rparr>]\<rparr>,
         Inr (p\<lparr>razorpayPaymentId := Some (v_razorpayPaymentId dto),
                razorpaySignature := Some (v_razorpaySignature dto),
                pay_status := PAY_COMPLETED, pay_completedAt := Some now\<rparr>))
      \<and> outbox (fst (verifyPayment gw st dto now)) = outbox st)
   \<and> (webhookSignature = hmac_sha256_hex gw (webhookSecret gw) (stringify gw dat) \<and>
      wh_event dat = ''payment.completed'' \<and> wh_payment dat = Some pe \<and>
      find (\<lambda>p. razorpayPaymentId p = Some (pe_id pe)) (payments st) = Some p2 \<and>
      pay_status p2 = PAY_COMPLETED \<and>
      payment_method_of (mapPaymentMethod (pe_method pe)) = Some m \<and>
      find (\<lambda>d. deal_id d = dealId p2) (deals st) = Some d2 \<longrightarrow>
      handleWebhook gw st dat webhookSignature now =
        (st\<lparr>payments := map (\<lambda>r. if pay_id r = pay_id p2
                 then r\<lparr>pay_status := PAY_COMPLETED, pay_method := Some m,
                        pay_completedAt := Some now\<rparr>
                 else r) (payments st),
             deals := map (\<lambda>r. if deal_id r = dealId p2
                 then r\<lparr>paymentStatus := PAID, paymentId := Some (pe_id pe)\<rparr>
                 else r) (deals st),
             paymentLogs := paymentLogs st @
                 [\<lparr>log_paymentId = pay_id p2, event = ''PAYMENT_COMPLETED'',
                   log_status = ''SUCCESS'', razorpayData = Some (PaymentData pe),
                   errorMessage = None, createdAt = now\<rparr>]\<rparr>,
         Inr ())
      \<and> outbox (fst (handleWebhook gw st dat webhookSignature now)) = outbox st)"
proof (intro conjI impI)
  assume a: "distinct (map pay_id (payments st)) \<and>
    find (\<lambda>p. dealId p = v_dealId dto) (payments st) = Some p \<and>
    pay_status p = PAY_COMPLETED \<and>
    razorpayOrderId p = v_razorpayOrderId dto \<and>
    v_razorpaySignature dto =
      hmac_sha256_hex gw (keySecret gw) (v_razorpayOrderId dto @ ''|'' @ v_razorpayPaymentId dto) \<and>
    find (\<lambda>d. deal_id d = v_dealId dto) (deals st) = Some d"
  then have mem: "p \<in> set (payments st)" using find_in_set by fastforce
  from a have dist: "distinct (map pay_id (payments st))" by simp
  show v: "verifyPayment gw st dto now =
        (st\<lparr>payments := map (\<lambda>r. if pay_id r = pay_id p
                 then r\<lparr>razorpayPaymentId := Some (v_razorpayPaymentId dto),
                        razorpaySignature := Some (v_razorpaySignature dto),
                        pay_status := PAY_COMPLETED, pay_completedAt := Some now\<rparr>
                 else r) (payments st),
             deals := map (\<lambda>r. if deal_id r = v_dealId dto
                 then r\<lparr>paymentStatus := PAID, paymentId := Some (v_razorpayPaymentId dto)\<rparr>
                 else r) (deals st),
             paymentLogs := paymentLogs st @
                 [\<lparr>log_paymentId = pay_id p, event = ''PAYMENT_COMPLETED'',
                   log_status = ''SUCCESS'',
                   razorpayData = Some (VerifiedIds (v_razorpayOrderId dto) (v_razorpayPaymentId dto)),
                   errorMessage = None, createdAt = now\<rparr>]\<rparr>,
         Inr (p\<lparr>razorpayPaymentId := Some (v_razorpayPaymentId dto),
                razorpaySignature := Some (v_razorpaySignature dto),
                pay_status := PAY_COMPLETED, pay_completedAt := Some now\<rparr>))"
    using a by (simp add: verifyPayment_def Let_def payment_update_distinct[OF dist mem]
        deal_update_def log_create_def)
  show "outbox (fst (verifyPayment gw st dto now)) = outbox st"
    by (simp add: v)
next
  assume a: "webhookSignature = hmac_sha256_hex gw (webhookSecret gw) (stringify gw dat) \<and>
      wh_event dat = ''payment.completed'' \<and> wh_payment dat = Some pe \<and>
      find (\<lambda>p. razorpayPaymentId p = Some (pe_id pe)) (payments st) = Some p2 \<and>
      pay_status p2 = PAY_COMPLETED \<and>
      payment_method_of (mapPaymentMethod (pe_method pe)) = Some m \<and>
      find (\<lambda>d. deal_id d = dealId p2) (deals st) = Some d2"
  then have "p2 \<in> set (payments st)" using find_in_set by fastforce
  from payment_update_mem[OF this, of "\<lambda>r. r\<lparr>pay_status := PAY_COMPLETED, pay_method := Some m,
                        pay_completedAt := Some now\<rparr>"]
  obtain p' where u: "payment_update st (pay_id p2)
      (\<lambda>r. r\<lparr>pay_status := PAY_COMPLETED, pay_method := Some m, pay_completedAt := Some now\<rparr>) =
    Some (st\<lparr>payments := map (\<lambda>r. if pay_id r = pay_id p2
                 then r\<lparr>pay_status := PAY_COMPLETED, pay_method := Some m,
                        pay_completedAt := Some now\<rparr>
                 else r) (payments st)\<rparr>, p')"
    by blast
  show w: "handleWebhook gw st dat webhookSignature now =
        (st\<lparr>payments := map (\<lambda>r. if pay_id r = pay_id p2
                 then r\<lparr>pay_status := PAY_COMPLETED, pay_method := Some m,
                        pay_completedAt := Some now\<rparr>
                 else r) (payments st),
             deals := map (\<lambda>r. if deal_id r = dealId p2
                 then r\<lparr>paymentStatus := PAID, paymentId := Some (pe_id pe)\<rparr>
                 else r) (deals st),
             paymentLogs := paymentLogs st @
                 [\<lparr>log_paymentId = pay_id p2, event = ''PAYMENT_COMPLETED'',
                   log_status = ''SUCCESS'', razorpayData = Some (PaymentData pe),
                   errorMessage = None, createdAt = now\<rparr>]\<rparr>,
         Inr ())"
    using a u by (simp add: handleWebhook_def handlePaymentCompleted_def Let_def
        deal_update_def log_create_def)
  show "outbox (fst (handleWebhook gw st dat webhookSignature now)) = outbox st"
    by (simp add: w)
qed

theorem repeated_completion_effects_witness:
  "distinct (map pay_id (payments paid_store))
   \<and> find (\<lambda>p. dealId p = deal1) (payments paid_store) = Some paid_payment
   \<and> pay_status paid_payment = PAY_COMPLETED
   \<and> good_signature = hmac_sha256_hex demo_gateway (keySecret demo_gateway) (''order_1'' @ ''|'' @ ''pay_1'')
   \<and> snd (verifyPayment demo_gateway paid_store good_dto 900) =
       Inr (paid_payment\<lparr>pay_completedAt := Some 900\<rparr>)
   \<and> length (paymentLogs (fst (verifyPayment demo_gateway paid_store good_dto 900))) = 3
   \<and> snd (handleWebhook demo_gateway paid_store completed_event
        ''mac(webhook-secret,payment.completed)'' 900) = Inr ()
   \<and> length (paymentLogs (fst (handleWebhook demo_gateway paid_store completed_event
        ''mac(webhook-secret,payment.completed)'' 900))) = 3"
proof -
  let ?gw = demo_gateway
  let ?sig = "''mac(webhook-secret,payment.completed)''"
  let ?pe = "\<lparr>pe_id = ''pay_1'', pe_order_id = ''order_1'', pe_amount = 29900, pe_method = ''upi''\<rparr>"
  let ?d = "completed_deal\<lparr>paymentStatus := PAID, paymentId := Some ''pay_1''\<rparr>"
  note defs = payment_demo_defs completed_event_def
  have h1: "distinct (map pay_id (payments paid_store)) \<and>
    find (\<lambda>p. dealId p = v_dealId good_dto) (payments paid_store) = Some paid_payment \<and>
    pay_status paid_payment = PAY_COMPLETED \<and>
    razorpayOrderId paid_payment = v_razorpayOrderId good_dto \<and>
    v_razorpaySignature good_dto =
      hmac_sha256_hex ?gw (keySecret ?gw) (v_razorpayOrderId good_dto @ ''|'' @ v_razorpayPaymentId good_dto) \<and>
    find (\<lambda>d. deal_id d = v_dealId good_dto) (deals paid_store) = Some ?d"
    by (simp add: defs)
  have h2: "?sig = hmac_sha256_hex ?gw (webhookSecret ?gw) (stringify ?gw completed_event) \<and>
      wh_event completed_event = ''payment.completed'' \<and> wh_payment completed_event = Some ?pe \<and>
      find (\<lambda>p. razorpayPaymentId p = Some (pe_id ?pe)) (payments paid_store) = Some paid_payment \<and>
      pay_status paid_payment = PAY_COMPLETED \<and>
      payment_method_of (mapPaymentMethod (pe_method ?pe)) = Some UPI \<and>
      find (\<lambda>d. deal_id d = dealId paid_payment) (deals paid_store) = Some ?d"
    by (simp add: defs mapPaymentMethod_def methodMap_def payment_method_of_def)
  note th = repeated_completion_effects[where st = paid_store and gw = ?gw and dto = good_dto
      and p = paid_payment and d = ?d and now = 900 and webhookSignature = ?sig
      and dat = completed_event and pe = ?pe and ?p2.0 = paid_payment and m = UPI and ?d2.0 = ?d]
  have l: "length (paymentLogs paid_store) = 2" by (simp add: defs)
  from th h1 have v: "verifyPayment ?gw paid_store good_dto 900 =
        (paid_store\<lparr>payments := map (\<lambda>r. if pay_id r = pay_id paid_payment
                 then r\<lparr>razorpayPaymentId := Some (v_razorpayPaymentId good_dto),
                        razorpaySignature := Some (v_razorpaySignature good_dto),
                        pay_status := PAY_COMPLETED, pay_completedAt := Some 900\<rparr>
                 else r) (payments paid_store),
             deals := map (\<lambda>r. if deal_id r = v_dealId good_dto
                 then r\<lparr>paymentStatus := PAID, paymentId := Some (v_razorpayPaymentId good_dto)\<rparr>
                 else r) (deals paid_store),
             paymentLogs := paymentLogs paid_store @
                 [\<lparr>log_paymentId = pay_id paid_payment, event = ''PAYMENT_COMPLETED'',
                   log_status = ''SUCCESS'',
                   razorpayData = Some (VerifiedIds (v_razorpayOrderId good_dto) (v_razorpayPaymentId good_dto)),
                   errorMessage = None, createdAt = 900\<rparr>]\<rparr>,
         Inr (paid_payment\<lparr>razorpayPaymentId := Some (v_razorpayPaymentId good_dto),
                razorpaySignature := Some (v_razorpaySignature good_dto),
                pay_status := PAY_COMPLETED, pay_completedAt := Some 900\<rparr>))"
    by blast
  have v1: "snd (verifyPayment ?gw paid_store good_dto 900) =
       Inr (paid_payment\<lparr>pay_completedAt := Some 900\<rparr>)"
    unfolding v by (simp add: paid_payment_def good_dto_def)
  have v2: "length (paymentLogs (fst (verifyPayment ?gw paid_store good_dto 900))) = 3"
    unfolding v by (simp add: l)
  from th h2 have w: "handleWebhook ?gw paid_store completed_event ?sig 900 =
        (paid_store\<lparr>payments := map (\<lambda>r. if pay_id r = pay_id paid_payment
                 then r\<lparr>pay_status := PAY_COMPLETED, pay_method := Some UPI,
                        pay_completedAt := Some 900\<rparr>
                 else r) (payments paid_store),
             deals := map (\<lambda>r. if deal_id r = dealId paid_payment
                 then r\<lparr>paymentStatus := PAID, paymentId := Some (pe_id ?pe)\<rparr>
                 else r) (deals paid_store),
             paymentLogs := paymentLogs paid_store @
                 [\<lparr>log_paymentId = pay_id paid_payment, event = ''PAYMENT_COMPLETED'',
                   log_status = ''SUCCESS'', razorpayData = Some (PaymentData ?pe),
                   errorMessage = None, createdAt = 900\<rparr>]\<rparr>,
         Inr ())"
    by blast
  have w1: "snd (handleWebhook ?gw paid_store completed_event ?sig 900) = Inr ()"
    unfolding w by simp
  have w2: "length (paymentLogs (fst (handleWebhook ?gw paid_store completed_event ?sig 900))) = 3"
    unfolding w by (simp add: l)
  have g: "good_signature = hmac_sha256_hex ?gw (keySecret ?gw) (''order_1'' @ ''|'' @ ''pay_1'')"
    "find (\<lambda>p. dealId p = deal1) (payments paid_store) = Some paid_payment"
    by (simp_all add: defs)
  from h1 g v1 v2 w1 w2 show ?thesis by simp
qed

text \<open>
  Claim C9, as stated, fails at the HTTP boundary: without a payment for the deal the
  service returns null, and the controller answers with an error response that carries
  "Payment not found", not with a 200 and null. The handler throws a
  \<^verbatim>\<open>NotFoundError\<close> for the null; its own \<^verbatim>\<open>catch\<close> does not recognise the error as one,
  because the error has the prototype of \<^verbatim>\<open>AppError\<close>, and throws a \<^verbatim>\<open>BadRequestError\<close>
  with the same message instead, so the status is 400 and the code \<^verbatim>\<open>BAD_REQUEST\<close>.
\<close>

theorem getPaymentDetails_null_is_error_counterexample:
  "getPaymentDetails completed_store deal1 = (completed_store, Inr None)
   \<and> isValidUUID deal1
   \<and> err_statusCode (NotFoundError ''Payment not found'') = 404
   \<and> \<not> instanceof (NotFoundError ''Payment not found'') NotFoundError_class
   \<and> instanceof (NotFoundError ''Payment not found'') AppError_class
   \<and> PaymentController_getPaymentDetails completed_store (Some tenant1) deal1 =
       (completed_store,
        \<lparr>res_status = 400, res_success = False, res_message = ''Payment not found'',
         res_code = ''BAD_REQUEST'', res_data = NoData\<rparr>)"
  by (simp add: getPaymentDetails_def PaymentController_getPaymentDetails_def isValidUUID_def
      is_hex_def NotFoundError_def BadRequestError_def AppError_def instanceof_def
      getPaymentDetails_catch_def errorHandler_def payment_demo_defs)

text \<open>
  Claim C9, amended. \<open>getPaymentDetails\<close> leaves the store as it is. Without a
  payment for the deal the service returns null as a success; with one it returns the
  payment and exactly its log rows, newest first. At the HTTP boundary, for an
  authenticated request with a well-formed deal id, the controller leaves the store as
  it is as well; when the payment exists it answers 200 with the payment and its log
  rows in the same order, each passed through \<^verbatim>\<open>sanitizeData\<close>; when the service
  returned null it answers with an error response, not a 200, whose message is
  "Payment not found" and which carries no data.
\<close>

theorem getPaymentDetails_contract:
  "fst (getPaymentDetails st i) = st
   \<and> (find (\<lambda>p. dealId p = i) (payments st) = None \<longrightarrow>
        snd (getPaymentDetails st i) = Inr None \<and>
        (user \<noteq> None \<and> isValidUUID i \<longrightarrow>
           fst (PaymentController_getPaymentDetails st user i) = st \<and>
           \<not> res_success (snd (PaymentController_getPaymentDetails st user i)) \<and>
           res_status (snd (PaymentController_getPaymentDetails st user i)) \<noteq> 200 \<and>
           res_message (snd (PaymentController_getPaymentDetails st user i)) =
             ''Payment not found'' \<and>
           res_data (snd (PaymentController_getPaymentDetails st user i)) = NoData))
   \<and> (find (\<lambda>p. dealId p = i) (payments st) = Some p \<longrightarrow>
        (\<exists>ls. snd (getPaymentDetails st i) = Inr (Some (p, ls)) \<and>
           sorted_wrt (\<lambda>a b. createdAt b \<le> createdAt a) ls \<and>
           mset ls = mset (filter (\<lambda>l. log_paymentId l = pay_id p) (paymentLogs st)) \<and>
           (user \<noteq> None \<and> isValidUUID i \<longrightarrow>
              PaymentController_getPaymentDetails st user i =
                (st,
                 \<lparr>res_status = 200, res_success = True,
                  res_message = ''Payment details retrieved successfully'', res_code = [],
                  res_data =
                    PaymentDetails (sanitize_payment (payment_to_json p))
                      (map (\<lambda>l. sanitize_paymentLog (paymentLog_to_json l)) ls)\<rparr>))))"
proof (intro conjI impI)
  show "fst (getPaymentDetails st i) = st"
    by (simp add: getPaymentDetails_def split: option.splits)
next
  assume n: "find (\<lambda>p. dealId p = i) (payments st) = None"
  then show "snd (getPaymentDetails st i) = Inr None"
    by (simp add: getPaymentDetails_def)
  assume u: "user \<noteq> None \<and> isValidUUID i"
  with n have c: "PaymentController_getPaymentDetails st user i =
      (st, errorHandler (getPaymentDetails_catch (NotFoundError ''Payment not found'')))"
    by (auto simp: PaymentController_getPaymentDetails_def getPaymentDetails_def)
  have e: "errorHandler (getPaymentDetails_catch (NotFoundError ''Payment not found'')) =
      \<lparr>res_status = 400, res_success = False, res_message = ''Payment not found'',
       res_code = ''BAD_REQUEST'', res_data = NoData\<rparr>"
    by (simp add: errorHandler_def getPaymentDetails_catch_def instanceof_def
        NotFoundError_def BadRequestError_def AppError_def)
  show "fst (PaymentController_getPaymentDetails st user i) = st"
    by (simp add: c)
  show "\<not> res_success (snd (PaymentController_getPaymentDetails st user i))"
    by (simp add: c e)
  show "res_status (snd (PaymentController_getPaymentDetails st user i)) \<noteq> 200"
    by (simp add: c e)
  show "res_message (snd (PaymentController_getPaymentDetails st user i)) =
      ''Payment not found''"
    by (simp add: c e)
  show "res_data (snd (PaymentController_getPaymentDetails st user i)) = NoData"
    by (simp add: c e)
next
  assume f: "find (\<lambda>p. dealId p = i) (payments st) = Some p"
  let ?ls = "orderBy_createdAt_desc (filter (\<lambda>l. log_paymentId l = pay_id p) (paymentLogs st))"
  let ?body = "\<lambda>ls. \<lparr>res_status = 200, res_success = True,
      res_message = ''Payment details retrieved successfully'', res_code = [],
      res_data = PaymentDetails (sanitize_payment (payment_to_json p))
          (map (\<lambda>l. sanitize_paymentLog (paymentLog_to_json l)) ls)\<rparr>"
  have sd: "sanitize_date = (\<lambda>d. EmptyObject)"
    by (simp add: fun_eq_iff sanitize_date_def)
  have s2: "sanitize_payment (sanitize_payment q) = sanitize_payment q" for q
    by (simp add: sanitize_payment_def sd option.map_comp comp_def)
  have l2: "sanitize_paymentLog (sanitize_paymentLog l) = sanitize_paymentLog l" for l
    by (simp add: sanitize_paymentLog_def sanitize_date_def)
  have "snd (getPaymentDetails st i) = Inr (Some (p, ?ls))"
    using f by (simp add: getPaymentDetails_def)
  moreover have "sorted_wrt (\<lambda>a b. createdAt b \<le> createdAt a) ?ls"
    by (rule orderBy_createdAt_desc_sorted)
  moreover have "mset ?ls = mset (filter (\<lambda>l. log_paymentId l = pay_id p) (paymentLogs st))"
    by (rule orderBy_createdAt_desc_mset)
  moreover have "user \<noteq> None \<and> isValidUUID i \<longrightarrow>
      PaymentController_getPaymentDetails st user i = (st, ?body ?ls)"
    using f by (auto simp: PaymentController_getPaymentDetails_def getPaymentDetails_def
        sendSuccess_def s2 l2 comp_def)
  ultimately show "\<exists>ls. snd (getPaymentDetails st i) = Inr (Some (p, ls)) \<and>
           sorted_wrt (\<lambda>a b. createdAt b \<le> createdAt a) ls \<and>
           mset ls = mset (filter (\<lambda>l. log_paymentId l = pay_id p) (paymentLogs st)) \<and>
           (user \<noteq> None \<and> isValidUUID i \<longrightarrow>
              PaymentController_getPaymentDetails st user i = (st, ?body ls))"
    by blast
qed

theorem getPaymentDetails_contract_witness:
  "find (\<lambda>p. dealId p = deal1) (payments completed_store) = None
   \<and> isValidUUID deal1
   \<and> snd (getPaymentDetails completed_store deal1) = Inr None
   \<and> fst (PaymentController_getPaymentDetails completed_store (Some tenant1) deal1) =
       completed_store
   \<and> \<not> res_success (snd (PaymentController_getPaymentDetails completed_store (Some tenant1) deal1))
   \<and> res_status (snd (PaymentController_getPaymentDetails completed_store (Some tenant1) deal1))
       \<noteq> 200
   \<and> res_message (snd (PaymentController_getPaymentDetails completed_store (Some tenant1) deal1))
       = ''Payment not found''
   \<and> find (\<lambda>p. dealId p = deal1) (payments paid_store) = Some paid_payment
   \<and> getPaymentDetails paid_store deal1 =
       (paid_store, Inr (Some (paid_payment, [paid_log, initiated_log])))
   \<and> map createdAt [paid_log, initiated_log] = [500, 400]
   \<and> pay_completedAt paid_payment = Some 500
   \<and> PaymentController_getPaymentDetails paid_store (Some tenant1) deal1 =
       (paid_store,
        \<lparr>res_status = 200, res_success = True,
         res_message = ''Payment details retrieved successfully'', res_code = [],
         res_data =
           PaymentDetails
             ((payment_to_json paid_payment)\<lparr>json_completedAt := Some EmptyObject\<rparr>)
             [(paymentLog_to_json paid_log)\<lparr>json_createdAt := EmptyObject\<rparr>,
              (paymentLog_to_json initiated_log)\<lparr>json_createdAt := EmptyObject\<rparr>]\<rparr>)"
proof -
  have n: "find (\<lambda>p. dealId p = deal1) (payments completed_store) = None"
    by (simp add: payment_demo_defs)
  have u: "Some tenant1 \<noteq> None \<and> isValidUUID deal1"
    by (simp add: isValidUUID_def is_hex_def demo_ids)
  have f: "find (\<lambda>p. dealId p = deal1) (payments paid_store) = Some paid_payment"
    by (simp add: payment_demo_defs)
  have g: "getPaymentDetails paid_store deal1 =
      (paid_store, Inr (Some (paid_payment, [paid_log, initiated_log])))"
    by (simp add: getPaymentDetails_def orderBy_createdAt_desc_def payment_demo_defs)
  have t: "map createdAt [paid_log, initiated_log] = [500, 400]"
    "pay_completedAt paid_payment = Some 500"
    by (simp_all add: paid_log_def initiated_log_def paid_payment_def)
  have sp: "sanitize_payment (payment_to_json paid_payment) =
      (payment_to_json paid_payment)\<lparr>json_completedAt := Some EmptyObject\<rparr>"
    by (simp add: sanitize_payment_def sanitize_date_def payment_to_json_def paid_payment_def
        initiated_payment_def)
  have sl: "sanitize_paymentLog (paymentLog_to_json l) =
      (paymentLog_to_json l)\<lparr>json_createdAt := EmptyObject\<rparr>" for l
    by (simp add: sanitize_paymentLog_def sanitize_date_def)
  from getPaymentDetails_contract[where st = completed_store and i = deal1
      and user = "Some tenant1"] n u
  have a: "snd (getPaymentDetails completed_store deal1) = Inr None"
    and b: "fst (PaymentController_getPaymentDetails completed_store (Some tenant1) deal1) =
       completed_store"
      "\<not> res_success (snd (PaymentController_getPaymentDetails completed_store (Some tenant1) deal1))"
      "res_status (snd (PaymentController_getPaymentDetails completed_store (Some tenant1) deal1))
       \<noteq> 200"
      "res_message (snd (PaymentController_getPaymentDetails completed_store (Some tenant1) deal1))
       = ''Payment not found''"
    by blast+
  from getPaymentDetails_contract[where st = paid_store and i = deal1
      and user = "Some tenant1" and p = paid_payment] f u
  obtain ls where c: "snd (getPaymentDetails paid_store deal1) = Inr (Some (paid_payment, ls))"
    "PaymentController_getPaymentDetails paid_store (Some tenant1) deal1 =
       (paid_store,
        \<lparr>res_status = 200, res_success = True,
         res_message = ''Payment details retrieved successfully'', res_code = [],
         res_data = PaymentDetails (sanitize_payment (payment_to_json paid_payment))
             (map (\<lambda>l. sanitize_paymentLog (paymentLog_to_json l)) ls)\<rparr>)"
    by blast
  from c(1) g have "ls = [paid_log, initiated_log]" by simp
  with c(2) have d: "PaymentController_getPaymentDetails paid_store (Some tenant1) deal1 =
       (paid_store,
        \<lparr>res_status = 200, res_success = True,
         res_message = ''Payment details retrieved successfully'', res_code = [],
         res_data =
           PaymentDetails
             ((payment_to_json paid_payment)\<lparr>json_completedAt := Some EmptyObject\<rparr>)
             [(paymentLog_to_json paid_log)\<lparr>json_createdAt := EmptyObject\<rparr>,
              (paymentLog_to_json initiated_log)\<lparr>json_createdAt := EmptyObject\<rparr>]\<rparr>)"
    by (simp add: sp sl)
  from n u a b f g t d show ?thesis by simp
qed
end
